theory Spec2Isabelle
  imports Main
begin

section \<open>Data model\<close>

text \<open>
  The order and payment controllers work on four collections of a document store: products
  (each with nested add-on items), orders, users and notifications. Documents are records,
  a collection is a list in store order, and \<open>findById\<close> / \<open>findOne\<close> return the first
  document that matches. Object ids are strings, times are milliseconds (\<open>Date.now()\<close>).
  One request reads the clock once. The ids a request carries are well-formed object ids,
  and reads and writes of products and orders succeed; \<open>Notification.create\<close> may be
  refused, which is what the \<open>try/catch\<close> blocks of the controllers are about.
\<close>

record add_on_item =
  ao_id :: string
  ao_name :: string
  ao_countInStock :: int
  ao_inStock :: bool

record product =
  p_id :: string
  p_name :: string
  countInStock :: int
  inStock :: bool
  addOnItems :: "add_on_item list"

record order_item =
  oi_product :: string
  oi_name :: "string option"
  qty :: int

record tracking_entry =
  te_status :: string
  te_message :: string
  te_location :: "string option"
  te_timestamp :: "int option"
  te_updatedBy :: "string option"

record payment_result =
  pr_id :: "string option"
  pr_status :: "string option"
  pr_update_time :: "int option"
  pr_email_address :: "string option"
  pr_razorpay_order_id :: "string option"
  pr_payment_method :: "string option"

text \<open>
  The fields of an order that the controllers read or write. The shipping address, the
  price breakdown and the customization are stored as they arrive and never inspected.

  Modelled from the spec: the Order schema keeps timestamps (spec 3; models/Order.js is not
  among the sources). The handlers sort on \<open>createdAt\<close> and \<open>updatedAt\<close> and never write
  them: the store sets both when it inserts an order and stamps \<open>updatedAt\<close> with the
  time of every later save or update of it.
\<close>

record order =
  o_id :: string
  o_user :: string
  orderItems :: "order_item list"
  paymentMethod :: "string option"
  isPaid :: bool
  paidAt :: "int option"
  paymentResult :: "payment_result option"
  isDelivered :: bool
  deliveredAt :: "int option"
  trackingStatus :: string
  trackingHistory :: "tracking_entry list"
  returnStatus :: string
  returnReason :: "string option"
  returnAdminNote :: "string option"
  createdAt :: int
  updatedAt :: int

record preferences =
  orderAlerts :: "bool option"
  lowStockAlerts :: "bool option"

record user =
  u_id :: string
  u_role :: string
  notificationPreferences :: "preferences option"

text \<open>A notification without its message text, which no decision depends on.\<close>

record notification =
  n_user :: string
  n_title :: string
  n_type :: string
  n_link :: string
  n_read :: bool
  n_relatedOrder :: "string option"

record db =
  orders :: "order list"
  products :: "product list"
  users :: "user list"
  notifications :: "notification list"

text \<open>The authenticated principal that the token middleware puts into \<open>req.user\<close>.\<close>

record principal =
  auth_id :: string
  auth_role :: string

text \<open>
  What a handler does with the request: it sends a JSON reply with a status code, or it
  raises (a \<open>throw\<close> out of the handler, or \<open>next(error)\<close>), with the status set before.
\<close>

datatype error =
    HttpError nat string
  | TypeError
  | CreateFailed

datatype body =
    OrderBody order
  | OrdersBody "order list"
  | MsgBody string
  | BulkBody nat
  | VerifiedBody order
  | StatusOk
  | ErrorBody error

datatype outcome = Reply nat body | Raised error

section \<open>Stock ledger\<close>

definition findProductById :: "product list \<Rightarrow> string \<Rightarrow> product option" where
  "findProductById ps pid = find (\<lambda>p. p_id p = pid) ps"

definition hasAddOn :: "string \<Rightarrow> product \<Rightarrow> bool" where
  "hasAddOn aid p = list_ex (\<lambda>a. ao_id a = aid) (addOnItems p)"

text \<open>\<open>Product.findOne({"addOnItems._id": id})\<close>\<close>

definition findProductByAddOn :: "product list \<Rightarrow> string \<Rightarrow> product option" where
  "findProductByAddOn ps aid = find (hasAddOn aid) ps"

text \<open>\<open>product.addOnItems.id(id)\<close>\<close>

definition addOnById :: "product \<Rightarrow> string \<Rightarrow> add_on_item option" where
  "addOnById p aid = find (\<lambda>a. ao_id a = aid) (addOnItems p)"

text \<open>
  \<open>Product.findByIdAndUpdate(id, {$inc: {countInStock: d}})\<close>: the updated collection, or
  \<open>None\<close> when no product has the id (the call returns \<open>null\<close>).
\<close>

fun incMain :: "string \<Rightarrow> int \<Rightarrow> product list \<Rightarrow> product list option" where
  "incMain pid d [] = None"
| "incMain pid d (p # ps) =
     (if p_id p = pid then Some (p\<lparr>countInStock := countInStock p + d\<rparr> # ps)
      else map_option ((#) p) (incMain pid d ps))"

text \<open>The positional \<open>addOnItems.$\<close>: the first add-on of the array that has the id.\<close>

fun incAddOnItems :: "string \<Rightarrow> int \<Rightarrow> add_on_item list \<Rightarrow> add_on_item list" where
  "incAddOnItems aid d [] = []"
| "incAddOnItems aid d (a # as) =
     (if ao_id a = aid then a\<lparr>ao_countInStock := ao_countInStock a + d\<rparr> # as
      else a # incAddOnItems aid d as)"

text \<open>
  \<open>Product.findOneAndUpdate({"addOnItems._id": id}, {$inc: {"addOnItems.$.countInStock": d}})\<close>:
  nothing changes when no product carries such an add-on.
\<close>

fun incAddOn :: "string \<Rightarrow> int \<Rightarrow> product list \<Rightarrow> product list" where
  "incAddOn aid d [] = []"
| "incAddOn aid d (p # ps) =
     (if hasAddOn aid p then p\<lparr>addOnItems := incAddOnItems aid d (addOnItems p)\<rparr> # ps
      else p # incAddOn aid d ps)"

text \<open>One round of the stock loops: the main product first, else the add-on.\<close>

definition adjustStock :: "string \<Rightarrow> int \<Rightarrow> product list \<Rightarrow> product list" where
  "adjustStock pid d ps =
     (case incMain pid d ps of Some ps' \<Rightarrow> ps' | None \<Rightarrow> incAddOn pid d ps)"

text \<open>The loop of \<open>addOrderItems\<close> that takes the ordered quantities out of the stock.\<close>

fun decrementStock :: "order_item list \<Rightarrow> product list \<Rightarrow> product list" where
  "decrementStock [] ps = ps"
| "decrementStock (item # items) ps =
     decrementStock items (adjustStock (oi_product item) (- qty item) ps)"

text \<open>The loop of \<open>cancelOrder\<close> and \<open>abandonOrder\<close> that puts them back.\<close>

fun restoreStock :: "order_item list \<Rightarrow> product list \<Rightarrow> product list" where
  "restoreStock [] ps = ps"
| "restoreStock (item # items) ps =
     restoreStock items (adjustStock (oi_product item) (qty item) ps)"

section \<open>Notification dispatch\<close>

text \<open>
  The environment of a request: the clock, the id the store gives to a new document, and
  which notifications the store accepts (\<open>Notification.create\<close> rejects the others).
\<close>

record env =
  now :: int
  fresh_id :: string
  accepts :: "notification \<Rightarrow> bool"

text \<open>
  A run of awaited \<open>Notification.create\<close> calls: the first refused one raises, the ones
  before it stay in the store. The flag tells whether all were created.
\<close>

fun createAll :: "env \<Rightarrow> notification list \<Rightarrow> notification list \<Rightarrow> notification list \<times> bool" where
  "createAll e [] store = (store, True)"
| "createAll e (n # ns) store =
     (if accepts e n then createAll e ns (store @ [n]) else (store, False))"

definition admins :: "db \<Rightarrow> user list" where
  "admins s = filter (\<lambda>u. u_role u = ''admin'') (users s)"

text \<open>\<open>admin.notificationPreferences?.orderAlerts !== false\<close>\<close>

definition wantsOrderAlerts :: "user \<Rightarrow> bool" where
  "wantsOrderAlerts u =
     (case notificationPreferences u of None \<Rightarrow> True | Some p \<Rightarrow> orderAlerts p \<noteq> Some False)"

definition wantsLowStockAlerts :: "user \<Rightarrow> bool" where
  "wantsLowStockAlerts u =
     (case notificationPreferences u of None \<Rightarrow> True | Some p \<Rightarrow> lowStockAlerts p \<noteq> Some False)"

definition orderPlacedNote :: "order \<Rightarrow> principal \<Rightarrow> notification" where
  "orderPlacedNote ord u =
     \<lparr>n_user = auth_id u, n_title = ''Order Placed!'', n_type = ''order'',
      n_link = ''/orders'', n_read = False, n_relatedOrder = Some (o_id ord)\<rparr>"

definition newOrderNote :: "order \<Rightarrow> user \<Rightarrow> notification" where
  "newOrderNote ord a =
     \<lparr>n_user = u_id a, n_title = ''New Order Received!'', n_type = ''order'',
      n_link = ''/admin/order/'' @ o_id ord, n_read = False, n_relatedOrder = Some (o_id ord)\<rparr>"

definition lowStockNote :: "product \<Rightarrow> user \<Rightarrow> notification" where
  "lowStockNote p a =
     \<lparr>n_user = u_id a, n_title = ''Low Stock Alert!'', n_type = ''tracking'',
      n_link = ''/admin/product/'' @ p_id p @ ''/edit'', n_read = False, n_relatedOrder = None\<rparr>"

text \<open>The low-stock loop: main products only, at most 5 left, one note per willing admin.\<close>

definition lowStockNotes :: "db \<Rightarrow> order_item \<Rightarrow> notification list" where
  "lowStockNotes s item =
     (case findProductById (products s) (oi_product item) of
        None \<Rightarrow> []
      | Some p \<Rightarrow>
          if countInStock p \<le> 5 then map (lowStockNote p) (filter wantsLowStockAlerts (admins s))
          else [])"

text \<open>
  The notifications \<open>sendNewOrderNotifications\<close> attempts, in its order. None of its reads
  depends on a notification created before, so the list is fixed when it starts.
\<close>

definition newOrderNotifications :: "db \<Rightarrow> order \<Rightarrow> principal \<Rightarrow> notification list" where
  "newOrderNotifications s ord u =
     orderPlacedNote ord u
       # map (newOrderNote ord) (filter wantsOrderAlerts (admins s))
       @ concat (map (lowStockNotes s) (orderItems ord))"

text \<open>The whole body is inside \<open>try\<close>: a refused creation ends the dispatch and is logged.\<close>

definition sendNewOrderNotifications :: "env \<Rightarrow> order \<Rightarrow> principal \<Rightarrow> db \<Rightarrow> db" where
  "sendNewOrderNotifications e ord u s =
     s\<lparr>notifications := fst (createAll e (newOrderNotifications s ord u) (notifications s))\<rparr>"

section \<open>Order creation\<close>

record create_body =
  cb_orderItems :: "order_item list option"
  cb_paymentMethod :: "string option"

definition insufficient :: "string \<Rightarrow> error" where
  "insufficient name = HttpError 400 (''Insufficient stock for product: '' @ name)"

text \<open>\<open>item.name || item.product\<close>\<close>

definition itemLabel :: "order_item \<Rightarrow> string" where
  "itemLabel item =
     (case oi_name item of None \<Rightarrow> oi_product item
      | Some n \<Rightarrow> if n = [] then oi_product item else n)"

text \<open>The stock check of one line item; \<open>None\<close> when it passes.\<close>

definition checkItem :: "product list \<Rightarrow> order_item \<Rightarrow> error option" where
  "checkItem ps item =
     (case findProductById ps (oi_product item) of
        Some p \<Rightarrow>
          if \<not> inStock p \<or> countInStock p < qty item then Some (insufficient (p_name p))
          else None
      | None \<Rightarrow>
          (case findProductByAddOn ps (oi_product item) of
             Some p \<Rightarrow>
               (case addOnById p (oi_product item) of
                  None \<Rightarrow> Some (insufficient ''Unknown Add-on'')
                | Some a \<Rightarrow>
                    if \<not> ao_inStock a \<or> ao_countInStock a < qty item
                    then Some (insufficient (ao_name a))
                    else None)
           | None \<Rightarrow> Some (HttpError 404 (''Product not found: '' @ itemLabel item))))"

text \<open>The checking loop stops at the first item that fails.\<close>

fun checkStock :: "product list \<Rightarrow> order_item list \<Rightarrow> error option" where
  "checkStock ps [] = None"
| "checkStock ps (item # items) =
     (case checkItem ps item of Some err \<Rightarrow> Some err | None \<Rightarrow> checkStock ps items)"

definition lowerChar :: "char \<Rightarrow> char" where
  "lowerChar c =
     (case map_of (zip ''ABCDEFGHIJKLMNOPQRSTUVWXYZ'' ''abcdefghijklmnopqrstuvwxyz'') c of
        Some l \<Rightarrow> l
      | None \<Rightarrow> c)"

text \<open>
  \<open>toLowerCase\<close> on the letters A to Z. No character outside them lower-cases to a letter
  of \<open>online\<close> or \<open>razorpay\<close>, so the comparison below is the source's.
\<close>

definition toLowerCase :: "string \<Rightarrow> string" where
  "toLowerCase s = map lowerChar s"

definition isOnlinePayment :: "string option \<Rightarrow> bool" where
  "isOnlinePayment pm =
     (case pm of None \<Rightarrow> False
      | Some m \<Rightarrow> m \<noteq> [] \<and> (toLowerCase m = ''online'' \<or> toLowerCase m = ''razorpay''))"

text \<open>
  Modelled from the spec: the defaults of the Order schema (models/Order.js is not among
  the sources): a new order is unpaid, undelivered, \<open>pending\<close>, with an empty tracking
  history and return status \<open>None\<close>.
\<close>

definition newOrder :: "env \<Rightarrow> principal \<Rightarrow> order_item list \<Rightarrow> string option \<Rightarrow> order" where
  "newOrder e u items pm =
     \<lparr>o_id = fresh_id e, o_user = auth_id u, orderItems = items, paymentMethod = pm,
      isPaid = False, paidAt = None, paymentResult = None,
      isDelivered = False, deliveredAt = None,
      trackingStatus = ''pending'', trackingHistory = [],
      returnStatus = ''None'', returnReason = None, returnAdminNote = None,
      createdAt = now e, updatedAt = now e\<rparr>"

definition addOrderItems :: "env \<Rightarrow> principal \<Rightarrow> create_body \<Rightarrow> db \<Rightarrow> outcome \<times> db" where
  "addOrderItems e u b s =
     (case cb_orderItems b of
        None \<Rightarrow> (Raised TypeError, s)
      | Some items \<Rightarrow>
          if items = [] then (Raised (HttpError 400 ''No order items''), s)
          else
            (case checkStock (products s) items of
               Some err \<Rightarrow> (Raised err, s)
             | None \<Rightarrow>
                 let createdOrder = newOrder e u items (cb_paymentMethod b);
                     s1 = s\<lparr>orders := orders s @ [createdOrder]\<rparr>;
                     s2 = s1\<lparr>products := decrementStock items (products s1)\<rparr>;
                     s3 = (if isOnlinePayment (cb_paymentMethod b) then s2
                           else sendNewOrderNotifications e createdOrder u s2)
                 in (Reply 201 (OrderBody createdOrder), s3)))"

section \<open>Cancellation, abandonment, return requests, bulk update, listing\<close>

definition findOrder :: "order list \<Rightarrow> string \<Rightarrow> order option" where
  "findOrder os oid = find (\<lambda>x. o_id x = oid) os"

text \<open>\<open>order.save()\<close> of a loaded document: it replaces the stored document of that id.\<close>

fun saveOrder :: "order \<Rightarrow> order list \<Rightarrow> order list" where
  "saveOrder ord [] = []"
| "saveOrder ord (x # xs) = (if o_id x = o_id ord then ord # xs else x # saveOrder ord xs)"

text \<open>\<open>Order.findByIdAndDelete(id)\<close>\<close>

fun deleteOrder :: "string \<Rightarrow> order list \<Rightarrow> order list" where
  "deleteOrder oid [] = []"
| "deleteOrder oid (x # xs) = (if o_id x = oid then xs else x # deleteOrder oid xs)"

text \<open>\<open>{...order.paymentResult, status: 'refund_pending', update_time: Date.now()}\<close>\<close>

definition refundPending :: "env \<Rightarrow> payment_result option \<Rightarrow> payment_result" where
  "refundPending e pr =
     (case pr of
        None \<Rightarrow>
          \<lparr>pr_id = None, pr_status = Some ''refund_pending'', pr_update_time = Some (now e),
           pr_email_address = None, pr_razorpay_order_id = None, pr_payment_method = None\<rparr>
      | Some r \<Rightarrow> r\<lparr>pr_status := Some ''refund_pending'', pr_update_time := Some (now e)\<rparr>)"

definition cancellationMessage :: "order \<Rightarrow> string" where
  "cancellationMessage ord =
     (if isPaid ord then ''Order cancelled. Refund initiated to original payment source.''
      else ''Order cancelled by user'')"

text \<open>
  The document \<open>cancelOrder\<close> saves, as the store keeps it (\<open>updatedAt\<close> stamped). The
  guard \<open>if (order.trackingHistory)\<close> holds for every array, the empty one too, so the
  entry is always pushed.
\<close>

definition cancelled :: "env \<Rightarrow> principal \<Rightarrow> order \<Rightarrow> order" where
  "cancelled e u ord =
     ord\<lparr>trackingStatus := ''cancelled'',
         paymentResult :=
           (if isPaid ord then Some (refundPending e (paymentResult ord)) else paymentResult ord),
         trackingHistory := trackingHistory ord @
           [\<lparr>te_status = ''cancelled'', te_message = cancellationMessage ord,
             te_location = None, te_timestamp = None, te_updatedBy = Some (auth_id u)\<rparr>],
         updatedAt := now e\<rparr>"

definition orderCancelledNote :: "order \<Rightarrow> notification" where
  "orderCancelledNote ord =
     \<lparr>n_user = o_user ord, n_title = ''Order Cancelled'', n_type = ''order'',
      n_link = ''/track/'' @ o_id ord, n_read = False, n_relatedOrder = Some (o_id ord)\<rparr>"

definition cancelledByUserNote :: "order \<Rightarrow> user \<Rightarrow> notification" where
  "cancelledByUserNote ord a =
     \<lparr>n_user = u_id a, n_title = ''Order Cancelled by User'', n_type = ''order'',
      n_link = ''/admin/order/'' @ o_id ord, n_read = False, n_relatedOrder = Some (o_id ord)\<rparr>"

definition cancelNotifications :: "db \<Rightarrow> order \<Rightarrow> notification list" where
  "cancelNotifications s ord =
     orderCancelledNote ord # map (cancelledByUserNote ord) (filter wantsOrderAlerts (admins s))"

text \<open>
  \<open>cancelOrder\<close> has no \<open>try\<close>: after the order is saved, a refused
  \<open>Notification.create\<close> leaves the handler as an exception.
\<close>

definition cancelOrder :: "env \<Rightarrow> principal \<Rightarrow> string \<Rightarrow> db \<Rightarrow> outcome \<times> db" where
  "cancelOrder e u oid s =
     (case findOrder (orders s) oid of
        None \<Rightarrow> (Raised (HttpError 404 ''Order not found''), s)
      | Some ord \<Rightarrow>
          if o_user ord \<noteq> auth_id u \<and> auth_role u \<noteq> ''admin''
          then (Raised (HttpError 401 ''Not authorized to cancel this order''), s)
          else if trackingStatus ord = ''delivered'' \<or> trackingStatus ord = ''shipped''
                  \<or> trackingStatus ord = ''cancelled''
          then (Raised (HttpError 400 (''Cannot cancel order that is '' @ trackingStatus ord)), s)
          else
            let s1 = s\<lparr>products := restoreStock (orderItems ord) (products s)\<rparr>;
                updatedOrder = cancelled e u ord;
                s2 = s1\<lparr>orders := saveOrder updatedOrder (orders s1)\<rparr>;
                sent = createAll e (cancelNotifications s2 updatedOrder) (notifications s2);
                s3 = s2\<lparr>notifications := fst sent\<rparr>
            in (if snd sent then Reply 200 (OrderBody updatedOrder) else Raised CreateFailed, s3))"

definition abandonOrder :: "principal \<Rightarrow> string \<Rightarrow> db \<Rightarrow> outcome \<times> db" where
  "abandonOrder u oid s =
     (case findOrder (orders s) oid of
        None \<Rightarrow> (Raised (HttpError 404 ''Order not found''), s)
      | Some ord \<Rightarrow>
          let s1 = s\<lparr>products := restoreStock (orderItems ord) (products s)\<rparr>;
              s2 = s1\<lparr>orders := deleteOrder oid (orders s1)\<rparr>
          in (Reply 200 (MsgBody ''Order record permanently deleted and stock restored''), s2))"

text \<open>\<open>Math.floor(Math.abs(currentDate - deliveredDate) / (1000 * 60 * 60 * 24))\<close>\<close>

definition diffDays :: "int \<Rightarrow> int \<Rightarrow> int" where
  "diffDays currentDate deliveredDate = \<bar>currentDate - deliveredDate\<bar> div (1000 * 60 * 60 * 24)"

definition returnRequestNote :: "order \<Rightarrow> user \<Rightarrow> notification" where
  "returnRequestNote ord a =
     \<lparr>n_user = u_id a, n_title = ''New Return Request'', n_type = ''order'',
      n_link = ''/admin/returns'', n_read = False, n_relatedOrder = Some (o_id ord)\<rparr>"

text \<open>The document \<open>requestReturn\<close> saves, as the store keeps it.\<close>

definition requested :: "env \<Rightarrow> string option \<Rightarrow> order \<Rightarrow> order" where
  "requested e reason ord =
     ord\<lparr>returnStatus := ''Requested'', returnReason := reason, updatedAt := now e\<rparr>"

definition requestReturn ::
  "env \<Rightarrow> principal \<Rightarrow> string \<Rightarrow> string option \<Rightarrow> db \<Rightarrow> outcome \<times> db" where
  "requestReturn e u oid reason s =
     (case findOrder (orders s) oid of
        None \<Rightarrow> (Raised (HttpError 404 ''Order not found''), s)
      | Some ord \<Rightarrow>
          if o_user ord \<noteq> auth_id u
          then (Raised (HttpError 401 ''Not authorized to request return for this order''), s)
          else if trackingStatus ord \<noteq> ''delivered''
          then (Raised (HttpError 400 ''Return can only be requested for delivered orders''), s)
          else if (case deliveredAt ord of None \<Rightarrow> False | Some t \<Rightarrow> diffDays (now e) t > 7)
          then (Raised (HttpError 400
                  ''Return request can only be submitted within 7 days of delivery''), s)
          else if returnStatus ord \<noteq> ''None''
          then (Raised (HttpError 400 ''Return request already exists for this order''), s)
          else
            let updatedOrder = requested e reason ord;
                s1 = s\<lparr>orders := saveOrder updatedOrder (orders s)\<rparr>;
                sent = createAll e
                         (map (returnRequestNote updatedOrder) (filter wantsOrderAlerts (admins s1)))
                         (notifications s1);
                s2 = s1\<lparr>notifications := fst sent\<rparr>
            in (if snd sent then Reply 200 (OrderBody updatedOrder) else Raised CreateFailed, s2))"

record bulk_body =
  bb_orderIds :: "string list option"
  bb_status :: string

text \<open>The object \<open>updateData\<close>: a field is \<open>None\<close> when the handler does not set it.\<close>

record update_data =
  ud_isDelivered :: "bool option"
  ud_deliveredAt :: "int option"
  ud_trackingStatus :: "string option"
  ud_isPaid :: "bool option"
  ud_paidAt :: "int option"

definition emptyUpdate :: update_data where
  "emptyUpdate =
     \<lparr>ud_isDelivered = None, ud_deliveredAt = None, ud_trackingStatus = None,
      ud_isPaid = None, ud_paidAt = None\<rparr>"

definition updateData :: "env \<Rightarrow> string \<Rightarrow> update_data" where
  "updateData e status =
     (if status = ''delivered''
      then emptyUpdate\<lparr>ud_isDelivered := Some True, ud_deliveredAt := Some (now e),
                        ud_trackingStatus := Some ''delivered''\<rparr>
      else if status = ''paid''
      then emptyUpdate\<lparr>ud_isPaid := Some True, ud_paidAt := Some (now e)\<rparr>
      else if status \<in> set [''pending'', ''confirmed'', ''processing'', ''shipped'', ''out_for_delivery'']
      then emptyUpdate\<lparr>ud_trackingStatus := Some status\<rparr>
      else emptyUpdate)"

text \<open>\<open>{$set: updateData}\<close> on one document.\<close>

definition setFields :: "update_data \<Rightarrow> order \<Rightarrow> order" where
  "setFields d ord =
     ord\<lparr>isDelivered := (case ud_isDelivered d of None \<Rightarrow> isDelivered ord | Some v \<Rightarrow> v),
         deliveredAt := (case ud_deliveredAt d of None \<Rightarrow> deliveredAt ord | Some v \<Rightarrow> Some v),
         trackingStatus := (case ud_trackingStatus d of None \<Rightarrow> trackingStatus ord | Some v \<Rightarrow> v),
         isPaid := (case ud_isPaid d of None \<Rightarrow> isPaid ord | Some v \<Rightarrow> v),
         paidAt := (case ud_paidAt d of None \<Rightarrow> paidAt ord | Some v \<Rightarrow> Some v)\<rparr>"

text \<open>What the store writes to one matched order: the fields of the update and its stamp.\<close>

definition written :: "env \<Rightarrow> update_data \<Rightarrow> order \<Rightarrow> order" where
  "written e d ord = (setFields d ord)\<lparr>updatedAt := now e\<rparr>"

text \<open>
  \<open>Order.updateMany({_id: {$in: ids}}, {$set: d})\<close>: the collection afterwards and
  \<open>modifiedCount\<close>, the number of matched documents that the write changed. With the
  stamp, a write with an empty \<open>d\<close> still changes every matched order that was last
  written at another time.
\<close>

definition updateMany ::
  "env \<Rightarrow> string list \<Rightarrow> update_data \<Rightarrow> order list \<Rightarrow> order list \<times> nat" where
  "updateMany e ids d os =
     (map (\<lambda>x. if o_id x \<in> set ids then written e d x else x) os,
      length (filter (\<lambda>x. o_id x \<in> set ids \<and> written e d x \<noteq> x) os))"

text \<open>\<open>orderIds\<close> is \<open>None\<close> when the field is missing or not an array.\<close>

definition updateOrdersStatus :: "env \<Rightarrow> bulk_body \<Rightarrow> db \<Rightarrow> outcome \<times> db" where
  "updateOrdersStatus e b s =
     (case bb_orderIds b of
        None \<Rightarrow> (Raised (HttpError 400 ''No orders selected''), s)
      | Some ids \<Rightarrow>
          if ids = [] then (Raised (HttpError 400 ''No orders selected''), s)
          else
            let result = updateMany e ids (updateData e (bb_status b)) (orders s)
            in (Reply 200 (BulkBody (snd result)), s\<lparr>orders := fst result\<rparr>))"

text \<open>
  \<open>Order.find({user, $or: [{paymentMethod: 'COD'}, {isPaid: true}]}).sort({createdAt: -1})\<close>
\<close>

definition myOrdersQuery :: "principal \<Rightarrow> order \<Rightarrow> bool" where
  "myOrdersQuery u x = (o_user x = auth_id u \<and> (paymentMethod x = Some ''COD'' \<or> isPaid x))"

definition getMyOrders :: "principal \<Rightarrow> db \<Rightarrow> outcome \<times> db" where
  "getMyOrders u s =
     (Reply 200 (OrdersBody (sort_key (\<lambda>x. - createdAt x) (filter (myOrdersQuery u) (orders s)))), s)"

section \<open>Payment reconciliation\<close>

record verify_body =
  razorpay_order_id :: string
  razorpay_payment_id :: string
  razorpay_signature :: "string option"
  vb_orderId :: string

text \<open>
  The entity under \<open>payload.payment.entity\<close>. \<open>pe_notes\<close> is \<open>None\<close> when the entity has
  no \<open>notes\<close> object, \<open>Some None\<close> when the notes carry no \<open>orderId\<close>.
\<close>

record payment_entity =
  pe_id :: string
  pe_order_id :: "string option"
  pe_notes :: "string option option"

record webhook_body =
  wb_event :: string
  wb_entity :: "payment_entity option"

record webhook_req =
  x_razorpay_signature :: "string option"
  wh_body :: webhook_body

text \<open>
  What the payment controller takes from outside this file: whether the gateway client was
  built (both key variables set), the secrets, \<open>paymentConfig.mode\<close>, the keyed hash of the
  crypto library as a function of key and text, \<open>JSON.stringify\<close> on a webhook body, the
  mock verifier of config/payment.js with its \<open>success\<close> and \<open>paymentId\<close>, and the two
  helpers of services/notificationService.js as functions on the notification collection
  (\<open>None\<close> when they raise).
\<close>

record pay_env =
  razorpayInstance :: bool
  RAZORPAY_KEY_SECRET :: string
  RAZORPAY_WEBHOOK_SECRET :: "string option"
  mock_mode :: bool
  hmac_sha256 :: "string \<Rightarrow> string \<Rightarrow> string"
  stringify :: "webhook_body \<Rightarrow> string"
  verifyMockPayment :: "verify_body \<Rightarrow> bool \<times> string"
  createPaymentNotification ::
    "string \<Rightarrow> order \<Rightarrow> string \<Rightarrow> notification list \<Rightarrow> notification list option"
  createOrderNotification ::
    "string \<Rightarrow> order \<Rightarrow> string \<Rightarrow> notification list \<Rightarrow> notification list option"

text \<open>JavaScript truthiness of a string that may be absent.\<close>

definition truthy :: "string option \<Rightarrow> bool" where
  "truthy x = (case x of None \<Rightarrow> False | Some v \<Rightarrow> v \<noteq> [])"

text \<open>The pair \<open>(isValid, paymentId)\<close> that \<open>verifyPayment\<close> computes.\<close>

definition checkPayment :: "pay_env \<Rightarrow> verify_body \<Rightarrow> bool \<times> string" where
  "checkPayment p b =
     (if razorpayInstance p \<and> truthy (razorpay_signature b) then
        (razorpay_signature b =
           Some (hmac_sha256 p (RAZORPAY_KEY_SECRET p)
                   (razorpay_order_id b @ ''|'' @ razorpay_payment_id b)),
         razorpay_payment_id b)
      else if mock_mode p then verifyMockPayment p b
      else (False, razorpay_payment_id b))"

definition completedResult :: "env \<Rightarrow> string \<Rightarrow> string option \<Rightarrow> payment_result" where
  "completedResult e paymentId rzpOrderId =
     \<lparr>pr_id = Some paymentId, pr_status = Some ''completed'', pr_update_time = Some (now e),
      pr_email_address = None, pr_razorpay_order_id = rzpOrderId,
      pr_payment_method = Some ''razorpay''\<rparr>"

definition paidByClient :: "env \<Rightarrow> string \<Rightarrow> verify_body \<Rightarrow> order \<Rightarrow> order" where
  "paidByClient e paymentId b ord =
     ord\<lparr>isPaid := True, paidAt := Some (now e),
         paymentResult := Some (completedResult e paymentId (Some (razorpay_order_id b))),
         trackingHistory := trackingHistory ord @
           [\<lparr>te_status = ''pending'', te_message = ''Order placed and payment received'',
             te_location = Some ''Online'', te_timestamp = Some (now e), te_updatedBy = None\<rparr>],
         updatedAt := now e\<rparr>"

text \<open>
  The handler answers by itself in every case; its \<open>catch\<close> turns an exception of the
  two helpers into a 500 reply. \<open>sendNewOrderNotifications\<close> never raises.
\<close>

definition verifyPayment ::
  "env \<Rightarrow> pay_env \<Rightarrow> principal \<Rightarrow> verify_body \<Rightarrow> db \<Rightarrow> outcome \<times> db" where
  "verifyPayment e p u b s =
     (case findOrder (orders s) (vb_orderId b) of
        None \<Rightarrow> (Reply 404 (MsgBody ''Order not found''), s)
      | Some ord \<Rightarrow>
          if fst (checkPayment p b) then
            let paid = paidByClient e (snd (checkPayment p b)) b ord;
                s1 = s\<lparr>orders := saveOrder paid (orders s)\<rparr>;
                s2 = sendNewOrderNotifications e paid u s1
            in (case createPaymentNotification p (o_user paid) paid ''success'' (notifications s2) of
                  None \<Rightarrow> (Reply 500 (ErrorBody CreateFailed), s2)
                | Some ns1 \<Rightarrow>
                    (case createOrderNotification p (o_user paid) paid ''order_created'' ns1 of
                       None \<Rightarrow> (Reply 500 (ErrorBody CreateFailed), s2\<lparr>notifications := ns1\<rparr>)
                     | Some ns2 \<Rightarrow> (Reply 200 (VerifiedBody paid), s2\<lparr>notifications := ns2\<rparr>)))
          else (Reply 400 (MsgBody ''Invalid payment signature''), s))"

definition paidByWebhook :: "env \<Rightarrow> payment_entity \<Rightarrow> order \<Rightarrow> order" where
  "paidByWebhook e ent ord =
     ord\<lparr>isPaid := True, paidAt := Some (now e),
         paymentResult := Some (completedResult e (pe_id ent) (pe_order_id ent)),
         trackingStatus := ''confirmed'',
         trackingHistory := trackingHistory ord @
           [\<lparr>te_status = ''confirmed'', te_message = ''Order confirmed via Webhook'',
             te_location = Some ''Online'', te_timestamp = Some (now e), te_updatedBy = None\<rparr>],
         updatedAt := now e\<rparr>"

text \<open>
  The branch for \<open>payment.captured\<close>. Reading \<open>payload.payment.entity\<close> or its notes
  where there are none is a TypeError, which the handler's \<open>catch\<close> answers with 500.
\<close>

definition captured :: "env \<Rightarrow> webhook_body \<Rightarrow> db \<Rightarrow> outcome \<times> db" where
  "captured e wb s =
     (case wb_entity wb of
        None \<Rightarrow> (Reply 500 (ErrorBody TypeError), s)
      | Some razorpayPayment \<Rightarrow>
          (case pe_notes razorpayPayment of
             None \<Rightarrow> (Reply 500 (ErrorBody TypeError), s)
           | Some orderId \<Rightarrow>
               (case (case orderId of None \<Rightarrow> None | Some i \<Rightarrow> findOrder (orders s) i) of
                  None \<Rightarrow> (Reply 200 StatusOk, s)
                | Some ord \<Rightarrow>
                    if \<not> isPaid ord
                    then (Reply 200 StatusOk,
                          s\<lparr>orders := saveOrder (paidByWebhook e razorpayPayment ord) (orders s)\<rparr>)
                    else (Reply 200 StatusOk, s))))"

definition handleWebhook :: "env \<Rightarrow> pay_env \<Rightarrow> webhook_req \<Rightarrow> db \<Rightarrow> outcome \<times> db" where
  "handleWebhook e p req s =
     (case (x_razorpay_signature req, RAZORPAY_WEBHOOK_SECRET p) of
        (Some signature, Some secret) \<Rightarrow>
          if signature = [] \<or> secret = []
          then (Reply 400 (MsgBody ''Signature and secret are required for webhook''), s)
          else if signature \<noteq> hmac_sha256 p secret (stringify p (wh_body req))
          then (Reply 400 (MsgBody ''Invalid webhook signature''), s)
          else if wb_event (wh_body req) = ''payment.captured'' then captured e (wh_body req) s
          else (Reply 200 StatusOk, s)
      | _ \<Rightarrow> (Reply 400 (MsgBody ''Signature and secret are required for webhook''), s))"

section \<open>Reading the stock\<close>

text \<open>
  The stock of an id as the controllers resolve it: as a main product, and as an add-on of
  the first product that carries it. \<open>ordered items pid\<close> is the quantity a list of line
  items asks of one id.
\<close>

definition mainStock :: "product list \<Rightarrow> string \<Rightarrow> int option" where
  "mainStock ps pid = map_option countInStock (findProductById ps pid)"

definition addOnStock :: "product list \<Rightarrow> string \<Rightarrow> int option" where
  "addOnStock ps aid =
     (case findProductByAddOn ps aid of
        None \<Rightarrow> None
      | Some p \<Rightarrow> map_option ao_countInStock (addOnById p aid))"

definition ordered :: "order_item list \<Rightarrow> string \<Rightarrow> int" where
  "ordered items pid = sum_list (map qty (filter (\<lambda>i. oi_product i = pid) items))"

section \<open>A small shop\<close>

text \<open>Concrete documents on which the theorems below are instantiated.\<close>

definition blouse :: add_on_item where
  "blouse = \<lparr>ao_id = ''a1'', ao_name = ''Blouse'', ao_countInStock = 2, ao_inStock = True\<rparr>"

definition saree :: product where
  "saree = \<lparr>p_id = ''p1'', p_name = ''Saree'', countInStock = 5, inStock = True,
            addOnItems = [blouse]\<rparr>"

definition kurta :: product where
  "kurta = \<lparr>p_id = ''p2'', p_name = ''Kurta'', countInStock = 1, inStock = True,
            addOnItems = []\<rparr>"

definition manager :: user where
  "manager = \<lparr>u_id = ''u0'', u_role = ''admin'', notificationPreferences = None\<rparr>"

definition alice :: principal where
  "alice = \<lparr>auth_id = ''u1'', auth_role = ''customer''\<rparr>"

definition mallory :: principal where
  "mallory = \<lparr>auth_id = ''u2'', auth_role = ''customer''\<rparr>"

definition shop :: db where
  "shop = \<lparr>orders = [], products = [saree, kurta], users = [manager], notifications = []\<rparr>"

definition clock :: env where
  "clock = \<lparr>now = 1000, fresh_id = ''o1'', accepts = (\<lambda>n. True)\<rparr>"

text \<open>The same clock on a store that refuses every notification.\<close>

definition refusing :: env where
  "refusing = \<lparr>now = 1000, fresh_id = ''o1'', accepts = (\<lambda>n. False)\<rparr>"

definition line :: "string \<Rightarrow> int \<Rightarrow> order_item" where
  "line pid n = \<lparr>oi_product = pid, oi_name = None, qty = n\<rparr>"

definition basket :: "order_item list \<Rightarrow> string \<Rightarrow> create_body" where
  "basket items pm = \<lparr>cb_orderItems = Some items, cb_paymentMethod = Some pm\<rparr>"

text \<open>Alice's order of two sarees and a blouse, as \<open>addOrderItems\<close> stores it.\<close>

definition placed :: "string \<Rightarrow> order" where
  "placed pm = newOrder clock alice [line ''p1'' 2, line ''a1'' 1] (Some pm)"

text \<open>The shop after that order: the stock is taken, the order is stored.\<close>

definition trading :: "order \<Rightarrow> db" where
  "trading ord =
     \<lparr>orders = [ord],
      products = decrementStock (orderItems ord) (products shop),
      users = [manager], notifications = []\<rparr>"

text \<open>An order marked as delivered at a given time, and one marked as paid.\<close>

definition handedOver :: "int \<Rightarrow> order \<Rightarrow> order" where
  "handedOver t ord = ord\<lparr>isDelivered := True, deliveredAt := Some t, trackingStatus := ''delivered''\<rparr>"

definition settled :: "order \<Rightarrow> order" where
  "settled ord =
     ord\<lparr>isPaid := True, paidAt := Some 500,
         paymentResult := Some (completedResult clock ''pay_1'' (Some ''order_1''))\<rparr>"

text \<open>A number of days in milliseconds, and the clock of the examples set to a given time.\<close>

definition days :: "int \<Rightarrow> int" where
  "days n = n * (1000 * 60 * 60 * 24)"


text \<open>
  An order under another id, created and last written at a given time, a store of given
  orders, and a store of three orders: two of them unpaid, the third paid online.
\<close>

definition stamped :: "string \<Rightarrow> int \<Rightarrow> order \<Rightarrow> order" where
  "stamped i t ord = ord\<lparr>o_id := i, createdAt := t, updatedAt := t\<rparr>"

definition ledger :: "order list \<Rightarrow> db" where
  "ledger os = \<lparr>orders = os, products = [saree, kurta], users = [manager], notifications = []\<rparr>"

definition three :: db where
  "three = ledger [stamped ''o1'' 10 (placed ''COD''), stamped ''o2'' 20 (placed ''Online''),
                   stamped ''o3'' 30 (settled (placed ''Online''))]"

definition bulk :: "string list \<Rightarrow> string \<Rightarrow> bulk_body" where
  "bulk ids st = \<lparr>bb_orderIds = Some ids, bb_status = st\<rparr>"

text \<open>
  Modelled from the spec: the two helpers of services/notificationService.js, which is not
  among the sources. The spec (4.2, 4.3) has each create one notification for the user it
  is given; the kind it is called with stands here as the title.
\<close>

definition serviceNote ::
  "string \<Rightarrow> order \<Rightarrow> string \<Rightarrow> notification list \<Rightarrow> notification list option" where
  "serviceNote uid ord kind ns =
     Some (ns @ [\<lparr>n_user = uid, n_title = kind, n_type = ''order'', n_link = ''/orders'',
                   n_read = False, n_relatedOrder = Some (o_id ord)\<rparr>])"

text \<open>
  A gateway for the examples. The keyed hash and the serialisation are stand-ins (key, colon,
  text; the event name): the handlers only compare their values.
\<close>

definition gateway :: pay_env where
  "gateway =
     \<lparr>razorpayInstance = True, RAZORPAY_KEY_SECRET = ''k'', RAZORPAY_WEBHOOK_SECRET = Some ''w'',
      mock_mode = False,
      hmac_sha256 = (\<lambda>key text. key @ '':'' @ text),
      stringify = wb_event,
      verifyMockPayment = (\<lambda>b. (False, [])),
      createPaymentNotification = serviceNote,
      createOrderNotification = serviceNote\<rparr>"

text \<open>A \<open>payment.captured\<close> webhook for order \<open>o1\<close> under a given signature header.\<close>

definition delivery :: "string \<Rightarrow> webhook_req" where
  "delivery sg =
     \<lparr>x_razorpay_signature = Some sg,
      wh_body = \<lparr>wb_event = ''payment.captured'',
                 wb_entity = Some \<lparr>pe_id = ''pay_1'', pe_order_id = Some ''order_1'',
                                   pe_notes = Some (Some ''o1'')\<rparr>\<rparr>\<rparr>"

text \<open>The client's confirmation for order \<open>o1\<close> under a given signature.\<close>

definition receipt :: "string \<Rightarrow> verify_body" where
  "receipt sg =
     \<lparr>razorpay_order_id = ''order_1'', razorpay_payment_id = ''pay_1'',
      razorpay_signature = Some sg, vb_orderId = ''o1''\<rparr>"

text \<open>The store after the client has confirmed the payment of an online order once.\<close>

definition once :: db where
  "once = snd (verifyPayment clock gateway alice (receipt ''k:order_1|pay_1'') (trading (placed ''RazorPay'')))"

text \<open>The definitions by which the examples are evaluated.\<close>

lemmas shop_defs =
  blouse_def saree_def kurta_def manager_def alice_def mallory_def shop_def clock_def
  refusing_def line_def basket_def placed_def trading_def newOrder_def handedOver_def
  settled_def completedResult_def

lemmas ledger_defs = three_def ledger_def stamped_def bulk_def

lemmas gateway_defs = gateway_def delivery_def serviceNote_def

lemmas stock_defs =
  findProductById_def findProductByAddOn_def hasAddOn_def addOnById_def adjustStock_def
  checkItem_def insufficient_def itemLabel_def mainStock_def addOnStock_def ordered_def

lemmas notify_defs =
  sendNewOrderNotifications_def newOrderNotifications_def admins_def wantsOrderAlerts_def
  wantsLowStockAlerts_def orderPlacedNote_def newOrderNote_def lowStockNote_def
  lowStockNotes_def isOnlinePayment_def toLowerCase_def lowerChar_def

section \<open>The stock ledger adjusts exactly the item it resolves\<close>

lemma incMain_None: "(incMain pid d ps = None) = (findProductById ps pid = None)"
  by (induction ps) (auto simp: findProductById_def)

lemma mainStock_incMain:
  "incMain pid d ps = Some ps' \<Longrightarrow>
   mainStock ps' q = (if q = pid then map_option (\<lambda>c. c + d) (mainStock ps q) else mainStock ps q)"
  by (induction ps arbitrary: ps') (auto simp: mainStock_def findProductById_def split: if_splits)

lemma mainStock_incAddOn: "mainStock (incAddOn aid d ps) q = mainStock ps q"
  by (induction ps) (auto simp: mainStock_def findProductById_def)

lemma mainStock_adjustStock:
  "mainStock (adjustStock pid d ps) q =
     (if q = pid then map_option (\<lambda>c. c + d) (mainStock ps q) else mainStock ps q)"
proof (cases "incMain pid d ps")
  case None
  then have "findProductById ps pid = None" by (simp add: incMain_None)
  then have "q = pid \<Longrightarrow> mainStock ps q = None" by (simp add: mainStock_def)
  then show ?thesis using None
    by (cases "q = pid") (simp_all add: adjustStock_def mainStock_incAddOn)
next
  case (Some ps')
  then show ?thesis by (simp add: adjustStock_def mainStock_incMain)
qed

lemma list_ex_incAddOnItems:
  "list_ex (\<lambda>a. ao_id a = aid) (incAddOnItems x d as) = list_ex (\<lambda>a. ao_id a = aid) as"
  by (induction as) auto

lemma find_incAddOnItems:
  "find (\<lambda>a. ao_id a = aid) (incAddOnItems x d as) =
   (if aid = x then map_option (\<lambda>a. a\<lparr>ao_countInStock := ao_countInStock a + d\<rparr>)
       (find (\<lambda>a. ao_id a = aid) as)
    else find (\<lambda>a. ao_id a = aid) as)"
  by (induction as) auto

lemma addOnStock_incMain:
  "incMain pid d ps = Some ps' \<Longrightarrow> addOnStock ps' aid = addOnStock ps aid"
  by (induction ps arbitrary: ps')
     (auto simp: addOnStock_def findProductByAddOn_def hasAddOn_def addOnById_def split: if_splits)

lemma addOnStock_incAddOn:
  "addOnStock (incAddOn x d ps) aid =
     (if aid = x then map_option (\<lambda>c. c + d) (addOnStock ps aid) else addOnStock ps aid)"
  by (induction ps)
     (auto simp: addOnStock_def findProductByAddOn_def hasAddOn_def addOnById_def
        list_ex_incAddOnItems find_incAddOnItems option.map_comp comp_def
        split: option.splits)

lemma addOnStock_adjustStock:
  "addOnStock (adjustStock pid d ps) aid =
     (if aid = pid \<and> findProductById ps pid = None
      then map_option (\<lambda>c. c + d) (addOnStock ps aid)
      else addOnStock ps aid)"
proof (cases "incMain pid d ps")
  case None
  then have "findProductById ps pid = None" by (simp add: incMain_None)
  then show ?thesis using None by (simp add: adjustStock_def addOnStock_incAddOn)
next
  case (Some ps')
  then have "findProductById ps pid \<noteq> None" using incMain_None [of pid d ps] by simp
  then show ?thesis using Some by (auto simp: adjustStock_def addOnStock_incMain)
qed

lemma findProductById_adjustStock:
  "(findProductById (adjustStock pid d ps) q = None) = (findProductById ps q = None)"
  using mainStock_adjustStock [of pid d ps q] by (auto simp: mainStock_def split: if_splits)

lemma mainStock_restoreStock:
  "mainStock (restoreStock items ps) q = map_option (\<lambda>c. c + ordered items q) (mainStock ps q)"
proof (induction items arbitrary: ps)
  case Nil
  show ?case by (simp add: ordered_def option.map_ident)
next
  case (Cons item items)
  show ?case
    by (simp add: Cons.IH mainStock_adjustStock ordered_def option.map_comp comp_def add.assoc)
qed

lemma mainStock_decrementStock:
  "mainStock (decrementStock items ps) q = map_option (\<lambda>c. c - ordered items q) (mainStock ps q)"
proof (induction items arbitrary: ps)
  case Nil
  show ?case by (simp add: ordered_def option.map_ident)
next
  case (Cons item items)
  show ?case
    by (simp add: Cons.IH mainStock_adjustStock ordered_def option.map_comp comp_def algebra_simps)
qed

lemma addOnStock_restoreStock:
  "findProductById ps q = None \<Longrightarrow>
   addOnStock (restoreStock items ps) q = map_option (\<lambda>c. c + ordered items q) (addOnStock ps q)"
proof (induction items arbitrary: ps)
  case Nil
  show ?case by (simp add: ordered_def option.map_ident)
next
  case (Cons item items)
  then show ?case
    by (simp add: findProductById_adjustStock addOnStock_adjustStock ordered_def
          option.map_comp comp_def add.assoc)
qed

lemma addOnStock_decrementStock:
  "findProductById ps q = None \<Longrightarrow>
   addOnStock (decrementStock items ps) q = map_option (\<lambda>c. c - ordered items q) (addOnStock ps q)"
proof (induction items arbitrary: ps)
  case Nil
  show ?case by (simp add: ordered_def option.map_ident)
next
  case (Cons item items)
  then show ?case
    by (simp add: findProductById_adjustStock addOnStock_adjustStock ordered_def
          option.map_comp comp_def algebra_simps)
qed

lemma checkStock_None:
  "(checkStock ps items = None) = (\<forall>item\<in>set items. checkItem ps item = None)"
  by (induction items) (auto split: option.splits)

section \<open>Order creation checks the whole basket before it writes\<close>

text \<open>
  C1. Order creation is all-or-nothing on the stock check. If any requested line item fails
  the check (resolved first as a main product, else as an add-on; an id that is neither is a
  404 error), the handler raises and the store is left as it was: no order is created and no
  stock of a product or add-on changes. Whenever the store changes or a reply is sent, every
  line item has passed. When every item of a non-empty basket passes, the reply is 201, the
  order is appended to the orders, and the stock is decremented for every item: each main
  product and each add-on loses exactly the quantity the basket asks of its id.
\<close>

theorem addOrderItems_all_or_nothing:
  "(cb_orderItems b = Some items \<and> (\<exists>item\<in>set items. checkItem (products s) item \<noteq> None)
      \<longrightarrow> (\<exists>err. addOrderItems e u b s = (Raised err, s)))
   \<and> (findProductById (products s) (oi_product item) = None
        \<and> findProductByAddOn (products s) (oi_product item) = None
      \<longrightarrow> checkItem (products s) item =
            Some (HttpError 404 (''Product not found: '' @ itemLabel item)))
   \<and> (snd (addOrderItems e u b s) \<noteq> s \<or> (\<exists>c r. fst (addOrderItems e u b s) = Reply c r)
      \<longrightarrow> (\<exists>its. cb_orderItems b = Some its \<and> its \<noteq> []
            \<and> (\<forall>item\<in>set its. checkItem (products s) item = None)))
   \<and> (cb_orderItems b = Some items \<and> items \<noteq> []
        \<and> (\<forall>item\<in>set items. checkItem (products s) item = None)
      \<longrightarrow> fst (addOrderItems e u b s) = Reply 201 (OrderBody (newOrder e u items (cb_paymentMethod b)))
        \<and> orders (snd (addOrderItems e u b s)) = orders s @ [newOrder e u items (cb_paymentMethod b)]
        \<and> products (snd (addOrderItems e u b s)) = decrementStock items (products s)
        \<and> mainStock (products (snd (addOrderItems e u b s))) q =
            map_option (\<lambda>c. c - ordered items q) (mainStock (products s) q)
        \<and> (findProductById (products s) q = None \<longrightarrow>
            addOnStock (products (snd (addOrderItems e u b s))) q =
              map_option (\<lambda>c. c - ordered items q) (addOnStock (products s) q)))"
proof (intro conjI impI)
  assume a: "cb_orderItems b = Some items \<and> (\<exists>item\<in>set items. checkItem (products s) item \<noteq> None)"
  then have "checkStock (products s) items \<noteq> None" by (simp add: checkStock_None)
  then obtain err where "checkStock (products s) items = Some err" by auto
  moreover have "items \<noteq> []" using a by auto
  ultimately show "\<exists>err. addOrderItems e u b s = (Raised err, s)"
    using a by (simp add: addOrderItems_def)
next
  assume "findProductById (products s) (oi_product item) = None
        \<and> findProductByAddOn (products s) (oi_product item) = None"
  then show "checkItem (products s) item =
      Some (HttpError 404 (''Product not found: '' @ itemLabel item))"
    by (simp add: checkItem_def)
next
  assume "snd (addOrderItems e u b s) \<noteq> s \<or> (\<exists>c r. fst (addOrderItems e u b s) = Reply c r)"
  then show "\<exists>its. cb_orderItems b = Some its \<and> its \<noteq> []
            \<and> (\<forall>item\<in>set its. checkItem (products s) item = None)"
    by (auto simp: addOrderItems_def checkStock_None [symmetric] split: option.splits if_splits)
next
  assume a: "cb_orderItems b = Some items \<and> items \<noteq> []
        \<and> (\<forall>item\<in>set items. checkItem (products s) item = None)"
  then have c: "checkStock (products s) items = None" by (simp add: checkStock_None)
  show "fst (addOrderItems e u b s) = Reply 201 (OrderBody (newOrder e u items (cb_paymentMethod b)))"
    using a c by (simp add: addOrderItems_def Let_def)
  show "orders (snd (addOrderItems e u b s)) = orders s @ [newOrder e u items (cb_paymentMethod b)]"
    using a c by (simp add: addOrderItems_def Let_def sendNewOrderNotifications_def)
  show p: "products (snd (addOrderItems e u b s)) = decrementStock items (products s)"
    using a c by (simp add: addOrderItems_def Let_def sendNewOrderNotifications_def)
  show "mainStock (products (snd (addOrderItems e u b s))) q =
          map_option (\<lambda>c. c - ordered items q) (mainStock (products s) q)"
    by (simp only: p mainStock_decrementStock)
  assume "findProductById (products s) q = None"
  then show "addOnStock (products (snd (addOrderItems e u b s))) q =
          map_option (\<lambda>c. c - ordered items q) (addOnStock (products s) q)"
    by (simp only: p addOnStock_decrementStock)
qed

theorem addOrderItems_all_or_nothing_witness:
  "addOrderItems clock alice (basket [line ''p1'' 2, line ''p2'' 3] ''COD'') shop
     = (Raised (HttpError 400 ''Insufficient stock for product: Kurta''), shop)
   \<and> checkItem (products shop) (line ''zz'' 1) = Some (HttpError 404 ''Product not found: zz'')
   \<and> fst (addOrderItems clock alice (basket [line ''p1'' 2, line ''a1'' 1] ''COD'') shop)
       = Reply 201 (OrderBody (placed ''COD''))
   \<and> orders (snd (addOrderItems clock alice (basket [line ''p1'' 2, line ''a1'' 1] ''COD'') shop))
       = [placed ''COD'']
   \<and> mainStock (products (snd (addOrderItems clock alice (basket [line ''p1'' 2, line ''a1'' 1] ''COD'') shop))) ''p1''
       = Some 3
   \<and> addOnStock (products (snd (addOrderItems clock alice (basket [line ''p1'' 2, line ''a1'' 1] ''COD'') shop))) ''a1''
       = Some 1
   \<and> (\<exists>its. cb_orderItems (basket [line ''p1'' 2, line ''a1'' 1] ''COD'') = Some its \<and> its \<noteq> []
        \<and> (\<forall>item\<in>set its. checkItem (products shop) item = None))"
proof -
  let ?short = "[line ''p1'' 2, line ''p2'' 3]"
  let ?fine = "[line ''p1'' 2, line ''a1'' 1]"
  have bad: "cb_orderItems (basket ?short ''COD'') = Some ?short
      \<and> (\<exists>item\<in>set ?short. checkItem (products shop) item \<noteq> None)"
    by (simp add: shop_defs stock_defs)
  have missing: "findProductById (products shop) (oi_product (line ''zz'' 1)) = None
      \<and> findProductByAddOn (products shop) (oi_product (line ''zz'' 1)) = None"
    by (simp add: shop_defs stock_defs)
  have good: "cb_orderItems (basket ?fine ''COD'') = Some ?fine \<and> ?fine \<noteq> []
      \<and> (\<forall>item\<in>set ?fine. checkItem (products shop) item = None)"
    by (simp add: shop_defs stock_defs)
  have a1: "findProductById (products shop) ''a1'' = None"
    by (simp add: shop_defs stock_defs)
  have p1: "mainStock (products shop) ''p1'' = Some 5" "ordered ?fine ''p1'' = 2"
    by (simp_all add: shop_defs stock_defs)
  have p2: "addOnStock (products shop) ''a1'' = Some 2" "ordered ?fine ''a1'' = 1"
    by (simp_all add: shop_defs stock_defs)
  note t = addOrderItems_all_or_nothing
  from t [where b = "basket ?short ''COD''" and items = ?short and s = shop and e = clock and u = alice,
      THEN conjunct1, THEN mp, OF bad]
  obtain err where r: "addOrderItems clock alice (basket ?short ''COD'') shop = (Raised err, shop)"
    by blast
  have "checkStock (products shop) ?short = Some (HttpError 400 ''Insufficient stock for product: Kurta'')"
    by (simp add: shop_defs stock_defs)
  then have "fst (addOrderItems clock alice (basket ?short ''COD'') shop)
      = Raised (HttpError 400 ''Insufficient stock for product: Kurta'')"
    by (simp add: addOrderItems_def basket_def)
  with r have c1: "addOrderItems clock alice (basket ?short ''COD'') shop
     = (Raised (HttpError 400 ''Insufficient stock for product: Kurta''), shop)"
    by simp
  have c2: "checkItem (products shop) (line ''zz'' 1) = Some (HttpError 404 ''Product not found: zz'')"
    using t [where s = shop and item = "line ''zz'' 1", THEN conjunct2, THEN conjunct1, THEN mp, OF missing]
    by (simp add: itemLabel_def line_def)
  note g = t [where b = "basket ?fine ''COD''" and items = ?fine and s = shop and e = clock
      and u = alice and q = "''p1''", THEN conjunct2, THEN conjunct2, THEN conjunct2, THEN mp, OF good]
  note h = t [where b = "basket ?fine ''COD''" and items = ?fine and s = shop and e = clock
      and u = alice and q = "''a1''", THEN conjunct2, THEN conjunct2, THEN conjunct2, THEN mp, OF good]
  have c3: "fst (addOrderItems clock alice (basket ?fine ''COD'') shop) = Reply 201 (OrderBody (placed ''COD''))"
    using g [THEN conjunct1] by (simp add: placed_def basket_def)
  have c4: "orders (snd (addOrderItems clock alice (basket ?fine ''COD'') shop)) = [placed ''COD'']"
    using g [THEN conjunct2, THEN conjunct1] by (simp add: placed_def basket_def shop_def)
  have c5: "mainStock (products (snd (addOrderItems clock alice (basket ?fine ''COD'') shop))) ''p1'' = Some 3"
    using g [THEN conjunct2, THEN conjunct2, THEN conjunct2, THEN conjunct1]
    by (simp add: p1)
  have c6: "addOnStock (products (snd (addOrderItems clock alice (basket ?fine ''COD'') shop))) ''a1'' = Some 1"
    using h [THEN conjunct2, THEN conjunct2, THEN conjunct2, THEN conjunct2, THEN mp, OF a1]
    by (simp add: p2)
  have "snd (addOrderItems clock alice (basket ?fine ''COD'') shop) \<noteq> shop
      \<or> (\<exists>c r. fst (addOrderItems clock alice (basket ?fine ''COD'') shop) = Reply c r)"
    using c3 by blast
  note c7 = t [where b = "basket ?fine ''COD''" and s = shop and e = clock and u = alice,
      THEN conjunct2, THEN conjunct2, THEN conjunct1, THEN mp, OF this]
  show ?thesis using c1 c2 c3 c4 c5 c6 c7 by simp
qed


section \<open>Finding, saving and deleting orders\<close>

lemma findOrder_id: "findOrder os i = Some x \<Longrightarrow> o_id x = i"
  by (induction os) (auto simp: findOrder_def split: if_splits)

lemma findOrder_saveOrder:
  "findOrder os i = Some x \<Longrightarrow> o_id ord = i \<Longrightarrow> findOrder (saveOrder ord os) i = Some ord"
  by (induction os) (auto simp: findOrder_def split: if_splits)

lemma findOrder_saveOrder_other:
  "o_id ord \<noteq> j \<Longrightarrow> findOrder (saveOrder ord os) j = findOrder os j"
  by (induction os) (auto simp: findOrder_def)

lemma length_deleteOrder:
  "findOrder os i = Some x \<Longrightarrow> Suc (length (deleteOrder i os)) = length os"
  by (induction os) (auto simp: findOrder_def split: if_splits)

lemma findOrder_absent: "i \<notin> o_id ` set os \<Longrightarrow> findOrder os i = None"
  by (induction os) (auto simp: findOrder_def)

lemma findOrder_deleteOrder:
  "distinct (map o_id os) \<Longrightarrow> findOrder (deleteOrder i os) i = None"
proof (induction os)
  case Nil
  show ?case by (simp add: findOrder_def)
next
  case (Cons x xs)
  show ?case
  proof (cases "o_id x = i")
    case True
    then have "i \<notin> o_id ` set xs" using Cons.prems by auto
    then show ?thesis using True by (simp add: findOrder_absent)
  next
    case False
    then have "findOrder (deleteOrder i (x # xs)) i = findOrder (deleteOrder i xs) i"
      by (simp add: findOrder_def)
    then show ?thesis using Cons by simp
  qed
qed

lemma findOrder_deleteOrder_other:
  "i \<noteq> j \<Longrightarrow> findOrder (deleteOrder i os) j = findOrder os j"
  by (induction os) (auto simp: findOrder_def)

lemma cancelOrder_state:
  "findOrder (orders s) oid = Some ord \<Longrightarrow> (o_user ord = auth_id u \<or> auth_role u = ''admin'') \<Longrightarrow>
   trackingStatus ord \<noteq> ''delivered'' \<Longrightarrow> trackingStatus ord \<noteq> ''shipped'' \<Longrightarrow>
   trackingStatus ord \<noteq> ''cancelled'' \<Longrightarrow>
   products (snd (cancelOrder e u oid s)) = restoreStock (orderItems ord) (products s)
   \<and> orders (snd (cancelOrder e u oid s)) = saveOrder (cancelled e u ord) (orders s)
   \<and> users (snd (cancelOrder e u oid s)) = users s"
  by (auto simp: cancelOrder_def Let_def)

lemma trading_stock:
  "products (trading (placed pm)) = [saree\<lparr>countInStock := 3, addOnItems := [blouse\<lparr>ao_countInStock := 1\<rparr>]\<rparr>, kurta]"
  by (simp add: shop_defs stock_defs)

section \<open>Cancellation\<close>

text \<open>
  C4. Cancelling an order whose tracking status is delivered, shipped or cancelled is rejected
  with an error and leaves the store as it was: no stock restored, no status or history
  change. For a cancellable order (the caller is its owner or an admin, and the status is
  none of the three) cancellation restores the stock of every line item, the main product
  first and else the matching add-on, so that each id gains exactly the quantity the order
  holds of it; it saves the order with tracking status cancelled and one more
  tracking-history entry, and, if the order was paid, with payment-result status
  refund_pending (an unpaid order keeps its payment result).
\<close>

theorem cancelOrder_terminal_rejected_else_restores:
  "findOrder (orders s) oid = Some ord \<longrightarrow>
     (trackingStatus ord = ''delivered'' \<or> trackingStatus ord = ''shipped''
        \<or> trackingStatus ord = ''cancelled''
      \<longrightarrow> (\<exists>c m. cancelOrder e u oid s = (Raised (HttpError c m), s)))
   \<and> ((o_user ord = auth_id u \<or> auth_role u = ''admin'')
        \<and> trackingStatus ord \<noteq> ''delivered'' \<and> trackingStatus ord \<noteq> ''shipped''
        \<and> trackingStatus ord \<noteq> ''cancelled''
      \<longrightarrow> products (snd (cancelOrder e u oid s)) = restoreStock (orderItems ord) (products s)
        \<and> mainStock (products (snd (cancelOrder e u oid s))) q =
            map_option (\<lambda>c. c + ordered (orderItems ord) q) (mainStock (products s) q)
        \<and> (findProductById (products s) q = None \<longrightarrow>
            addOnStock (products (snd (cancelOrder e u oid s))) q =
              map_option (\<lambda>c. c + ordered (orderItems ord) q) (addOnStock (products s) q))
        \<and> orders (snd (cancelOrder e u oid s)) = saveOrder (cancelled e u ord) (orders s)
        \<and> findOrder (orders (snd (cancelOrder e u oid s))) oid = Some (cancelled e u ord)
        \<and> trackingStatus (cancelled e u ord) = ''cancelled''
        \<and> trackingHistory (cancelled e u ord) = trackingHistory ord @
            [\<lparr>te_status = ''cancelled'', te_message = cancellationMessage ord,
              te_location = None, te_timestamp = None, te_updatedBy = Some (auth_id u)\<rparr>]
        \<and> (isPaid ord \<longrightarrow>
            (\<exists>r. paymentResult (cancelled e u ord) = Some r \<and> pr_status r = Some ''refund_pending''))
        \<and> (\<not> isPaid ord \<longrightarrow> paymentResult (cancelled e u ord) = paymentResult ord))"
proof (intro impI conjI)
  assume f: "findOrder (orders s) oid = Some ord"
  assume "trackingStatus ord = ''delivered'' \<or> trackingStatus ord = ''shipped''
        \<or> trackingStatus ord = ''cancelled''"
  then show "\<exists>c m. cancelOrder e u oid s = (Raised (HttpError c m), s)"
    using f by (auto simp: cancelOrder_def)
next
  assume f: "findOrder (orders s) oid = Some ord"
  assume g: "(o_user ord = auth_id u \<or> auth_role u = ''admin'')
        \<and> trackingStatus ord \<noteq> ''delivered'' \<and> trackingStatus ord \<noteq> ''shipped''
        \<and> trackingStatus ord \<noteq> ''cancelled''"
  note st = cancelOrder_state [OF f, of u e]
  show p: "products (snd (cancelOrder e u oid s)) = restoreStock (orderItems ord) (products s)"
    using st g by blast
  show "mainStock (products (snd (cancelOrder e u oid s))) q =
            map_option (\<lambda>c. c + ordered (orderItems ord) q) (mainStock (products s) q)"
    by (simp only: p mainStock_restoreStock)
  show o: "orders (snd (cancelOrder e u oid s)) = saveOrder (cancelled e u ord) (orders s)"
    using st g by blast
  have "o_id (cancelled e u ord) = oid" using findOrder_id [OF f] by (simp add: cancelled_def)
  then show "findOrder (orders (snd (cancelOrder e u oid s))) oid = Some (cancelled e u ord)"
    by (simp only: o findOrder_saveOrder [OF f])
  show "trackingStatus (cancelled e u ord) = ''cancelled''" by (simp add: cancelled_def)
  show "trackingHistory (cancelled e u ord) = trackingHistory ord @
            [\<lparr>te_status = ''cancelled'', te_message = cancellationMessage ord,
              te_location = None, te_timestamp = None, te_updatedBy = Some (auth_id u)\<rparr>]"
    by (simp add: cancelled_def)
  {
    assume "findProductById (products s) q = None"
    then show "addOnStock (products (snd (cancelOrder e u oid s))) q =
              map_option (\<lambda>c. c + ordered (orderItems ord) q) (addOnStock (products s) q)"
      by (simp only: p addOnStock_restoreStock)
  }
  {
    assume "isPaid ord"
    then show "\<exists>r. paymentResult (cancelled e u ord) = Some r \<and> pr_status r = Some ''refund_pending''"
      by (simp add: cancelled_def refundPending_def split: option.splits)
  }
  {
    assume "\<not> isPaid ord"
    then show "paymentResult (cancelled e u ord) = paymentResult ord"
      by (simp add: cancelled_def)
  }
qed

theorem cancelOrder_terminal_rejected_else_restores_witness:
  "cancelOrder clock alice ''o1'' (trading (handedOver 0 (placed ''COD'')))
     = (Raised (HttpError 400 ''Cannot cancel order that is delivered''),
        trading (handedOver 0 (placed ''COD'')))
   \<and> mainStock (products (snd (cancelOrder clock alice ''o1'' (trading (placed ''COD''))))) ''p1'' = Some 5
   \<and> addOnStock (products (snd (cancelOrder clock alice ''o1'' (trading (placed ''COD''))))) ''a1'' = Some 2
   \<and> map_option trackingStatus
        (findOrder (orders (snd (cancelOrder clock alice ''o1'' (trading (placed ''COD''))))) ''o1'')
       = Some ''cancelled''
   \<and> map_option (map te_status \<circ> trackingHistory)
        (findOrder (orders (snd (cancelOrder clock alice ''o1'' (trading (placed ''COD''))))) ''o1'')
       = Some [''cancelled'']
   \<and> map_option paymentResult
        (findOrder (orders (snd (cancelOrder clock alice ''o1'' (trading (placed ''COD''))))) ''o1'')
       = Some None
   \<and> map_option (map_option pr_status \<circ> paymentResult)
        (findOrder (orders (snd (cancelOrder clock alice ''o1'' (trading (settled (placed ''Online'')))))) ''o1'')
       = Some (Some (Some ''refund_pending''))"
proof -
  let ?cod = "placed ''COD''"
  let ?del = "handedOver 0 (placed ''COD'')"
  let ?paid = "settled (placed ''Online'')"
  note t = cancelOrder_terminal_rejected_else_restores
  have f1: "findOrder (orders (trading ?del)) ''o1'' = Some ?del"
    by (simp add: findOrder_def shop_defs)
  have f2: "findOrder (orders (trading ?cod)) ''o1'' = Some ?cod"
    by (simp add: findOrder_def shop_defs)
  have f3: "findOrder (orders (trading ?paid)) ''o1'' = Some ?paid"
    by (simp add: findOrder_def shop_defs)
  have d: "trackingStatus ?del = ''delivered'' \<or> trackingStatus ?del = ''shipped''
        \<or> trackingStatus ?del = ''cancelled''"
    by (simp add: shop_defs)
  have g2: "(o_user ?cod = auth_id alice \<or> auth_role alice = ''admin'')
        \<and> trackingStatus ?cod \<noteq> ''delivered'' \<and> trackingStatus ?cod \<noteq> ''shipped''
        \<and> trackingStatus ?cod \<noteq> ''cancelled''"
    by (simp add: shop_defs)
  have g3: "(o_user ?paid = auth_id alice \<or> auth_role alice = ''admin'')
        \<and> trackingStatus ?paid \<noteq> ''delivered'' \<and> trackingStatus ?paid \<noteq> ''shipped''
        \<and> trackingStatus ?paid \<noteq> ''cancelled''"
    by (simp add: shop_defs)
  have a1: "findProductById (products (trading ?cod)) ''a1'' = None"
    by (simp add: trading_stock) (simp add: shop_defs stock_defs)
  have unpaid: "\<not> isPaid ?cod" by (simp add: shop_defs)
  have paid: "isPaid ?paid" by (simp add: shop_defs)
  have before: "mainStock (products (trading ?cod)) ''p1'' = Some 3"
    "addOnStock (products (trading ?cod)) ''a1'' = Some 1"
    "ordered (orderItems ?cod) ''p1'' = 2" "ordered (orderItems ?cod) ''a1'' = 1"
    by (simp_all add: trading_stock) (simp_all add: shop_defs stock_defs)
  from t [where s = "trading ?del" and oid = "''o1''" and ord = ?del and e = clock and u = alice,
      THEN mp, OF f1, THEN conjunct1, THEN mp, OF d]
  obtain c m where r: "cancelOrder clock alice ''o1'' (trading ?del) = (Raised (HttpError c m), trading ?del)"
    by blast
  have "fst (cancelOrder clock alice ''o1'' (trading ?del))
      = Raised (HttpError 400 ''Cannot cancel order that is delivered'')"
    using f1 by (simp add: cancelOrder_def) (simp add: shop_defs)
  with r have c1: "cancelOrder clock alice ''o1'' (trading ?del)
     = (Raised (HttpError 400 ''Cannot cancel order that is delivered''), trading ?del)"
    by simp
  note g = t [where s = "trading ?cod" and oid = "''o1''" and ord = ?cod and e = clock and u = alice
      and q = "''p1''", THEN mp, OF f2, THEN conjunct2, THEN mp, OF g2]
  note h = t [where s = "trading ?cod" and oid = "''o1''" and ord = ?cod and e = clock and u = alice
      and q = "''a1''", THEN mp, OF f2, THEN conjunct2, THEN mp, OF g2]
  note k = t [where s = "trading ?paid" and oid = "''o1''" and ord = ?paid and e = clock and u = alice,
      THEN mp, OF f3, THEN conjunct2, THEN mp, OF g3]
  have c2: "mainStock (products (snd (cancelOrder clock alice ''o1'' (trading ?cod)))) ''p1'' = Some 5"
    using g [THEN conjunct2, THEN conjunct1] by (simp add: before)
  have c3: "addOnStock (products (snd (cancelOrder clock alice ''o1'' (trading ?cod)))) ''a1'' = Some 2"
    using h [THEN conjunct2, THEN conjunct2, THEN conjunct1, THEN mp, OF a1] by (simp add: before)
  note found = g [THEN conjunct2, THEN conjunct2, THEN conjunct2, THEN conjunct2, THEN conjunct1]
  note rest = g [THEN conjunct2, THEN conjunct2, THEN conjunct2, THEN conjunct2, THEN conjunct2]
  have c4: "map_option trackingStatus
        (findOrder (orders (snd (cancelOrder clock alice ''o1'' (trading ?cod)))) ''o1'') = Some ''cancelled''"
    using found rest [THEN conjunct1] by simp
  have c5: "map_option (map te_status \<circ> trackingHistory)
        (findOrder (orders (snd (cancelOrder clock alice ''o1'' (trading ?cod)))) ''o1'') = Some [''cancelled'']"
    using found rest [THEN conjunct2, THEN conjunct1] by (simp add: shop_defs)
  have c6: "map_option paymentResult
        (findOrder (orders (snd (cancelOrder clock alice ''o1'' (trading ?cod)))) ''o1'') = Some None"
    using found rest [THEN conjunct2, THEN conjunct2, THEN conjunct2, THEN mp, OF unpaid]
    by (simp add: shop_defs)
  note found' = k [THEN conjunct2, THEN conjunct2, THEN conjunct2, THEN conjunct2, THEN conjunct1]
  note rest' = k [THEN conjunct2, THEN conjunct2, THEN conjunct2, THEN conjunct2, THEN conjunct2]
  from rest' [THEN conjunct2, THEN conjunct2, THEN conjunct1, THEN mp, OF paid]
  obtain r where "paymentResult (cancelled clock alice ?paid) = Some r" "pr_status r = Some ''refund_pending''"
    by blast
  then have c7: "map_option (map_option pr_status \<circ> paymentResult)
        (findOrder (orders (snd (cancelOrder clock alice ''o1'' (trading ?paid)))) ''o1'')
       = Some (Some (Some ''refund_pending''))"
    using found' by simp
  show ?thesis using c1 c2 c3 c4 c5 c6 c7 by simp
qed

section \<open>Abandonment\<close>

text \<open>
  C9. For every existing order and every authenticated caller, abandoning restores the stock
  of each line item and then deletes the order document. Nothing of the caller, of the
  owner, of the payment state or of the tracking status is read: the result is the same for
  any two callers, and it holds for a paid order as for any other. Abandoning an order that
  was cancelled before restores its stock a second time.
\<close>

theorem abandonOrder_unconditional:
  "findOrder (orders s) oid = Some ord \<longrightarrow>
     abandonOrder u oid s =
       (Reply 200 (MsgBody ''Order record permanently deleted and stock restored''),
        s\<lparr>products := restoreStock (orderItems ord) (products s),
          orders := deleteOrder oid (orders s)\<rparr>)
   \<and> abandonOrder u' oid s = abandonOrder u oid s
   \<and> mainStock (products (snd (abandonOrder u oid s))) q =
        map_option (\<lambda>c. c + ordered (orderItems ord) q) (mainStock (products s) q)
   \<and> (findProductById (products s) q = None \<longrightarrow>
        addOnStock (products (snd (abandonOrder u oid s))) q =
          map_option (\<lambda>c. c + ordered (orderItems ord) q) (addOnStock (products s) q))
   \<and> Suc (length (orders (snd (abandonOrder u oid s)))) = length (orders s)
   \<and> (distinct (map o_id (orders s)) \<longrightarrow>
        findOrder (orders (snd (abandonOrder u oid s))) oid = None)
   \<and> ((o_user ord = auth_id v \<or> auth_role v = ''admin'')
        \<and> trackingStatus ord \<noteq> ''delivered'' \<and> trackingStatus ord \<noteq> ''shipped''
        \<and> trackingStatus ord \<noteq> ''cancelled''
      \<longrightarrow> products (snd (abandonOrder u oid (snd (cancelOrder e v oid s)))) =
            restoreStock (orderItems ord) (restoreStock (orderItems ord) (products s)))"
proof (intro impI conjI)
  assume f: "findOrder (orders s) oid = Some ord"
  show a: "abandonOrder u oid s =
       (Reply 200 (MsgBody ''Order record permanently deleted and stock restored''),
        s\<lparr>products := restoreStock (orderItems ord) (products s),
          orders := deleteOrder oid (orders s)\<rparr>)"
    using f by (simp add: abandonOrder_def Let_def)
  show "abandonOrder u' oid s = abandonOrder u oid s"
    by (simp add: abandonOrder_def)
  show "mainStock (products (snd (abandonOrder u oid s))) q =
        map_option (\<lambda>c. c + ordered (orderItems ord) q) (mainStock (products s) q)"
    by (simp add: a mainStock_restoreStock)
  show "Suc (length (orders (snd (abandonOrder u oid s)))) = length (orders s)"
    by (simp add: a length_deleteOrder [OF f])
  {
    assume "findProductById (products s) q = None"
    then show "addOnStock (products (snd (abandonOrder u oid s))) q =
          map_option (\<lambda>c. c + ordered (orderItems ord) q) (addOnStock (products s) q)"
      by (simp add: a addOnStock_restoreStock)
  }
  {
    assume "distinct (map o_id (orders s))"
    then show "findOrder (orders (snd (abandonOrder u oid s))) oid = None"
      by (simp add: a findOrder_deleteOrder)
  }
  {
    assume g: "(o_user ord = auth_id v \<or> auth_role v = ''admin'')
        \<and> trackingStatus ord \<noteq> ''delivered'' \<and> trackingStatus ord \<noteq> ''shipped''
        \<and> trackingStatus ord \<noteq> ''cancelled''"
    let ?s = "snd (cancelOrder e v oid s)"
    have st: "products ?s = restoreStock (orderItems ord) (products s)"
      "orders ?s = saveOrder (cancelled e v ord) (orders s)"
      using cancelOrder_state [OF f, of v e] g by blast+
    have "o_id (cancelled e v ord) = oid" using findOrder_id [OF f] by (simp add: cancelled_def)
    then have "findOrder (orders ?s) oid = Some (cancelled e v ord)"
      by (simp only: st findOrder_saveOrder [OF f])
    then have "products (snd (abandonOrder u oid ?s)) =
        restoreStock (orderItems (cancelled e v ord)) (products ?s)"
      by (simp add: abandonOrder_def Let_def)
    then show "products (snd (abandonOrder u oid (snd (cancelOrder e v oid s)))) =
            restoreStock (orderItems ord) (restoreStock (orderItems ord) (products s))"
      by (simp add: st cancelled_def)
  }
qed

theorem abandonOrder_unconditional_witness:
  "fst (abandonOrder mallory ''o1'' (trading (settled (placed ''Online''))))
     = Reply 200 (MsgBody ''Order record permanently deleted and stock restored'')
   \<and> orders (snd (abandonOrder mallory ''o1'' (trading (settled (placed ''Online''))))) = []
   \<and> findOrder (orders (snd (abandonOrder mallory ''o1'' (trading (settled (placed ''Online'')))))) ''o1''
       = None
   \<and> mainStock (products (snd (abandonOrder mallory ''o1'' (trading (settled (placed ''Online'')))))) ''p1''
       = Some 5
   \<and> addOnStock (products (snd (abandonOrder mallory ''o1'' (trading (settled (placed ''Online'')))))) ''a1''
       = Some 2
   \<and> mainStock (products (snd (abandonOrder mallory ''o1''
        (snd (cancelOrder clock alice ''o1'' (trading (settled (placed ''Online''))))))))  ''p1''
       = Some 7"
proof -
  let ?paid = "settled (placed ''Online'')"
  let ?s = "trading ?paid"
  note t = abandonOrder_unconditional
  have f: "findOrder (orders ?s) ''o1'' = Some ?paid"
    by (simp add: findOrder_def shop_defs)
  have a1: "findProductById (products ?s) ''a1'' = None"
    by (simp add: shop_defs stock_defs)
  have d: "distinct (map o_id (orders ?s))" by (simp add: shop_defs)
  have g: "(o_user ?paid = auth_id alice \<or> auth_role alice = ''admin'')
        \<and> trackingStatus ?paid \<noteq> ''delivered'' \<and> trackingStatus ?paid \<noteq> ''shipped''
        \<and> trackingStatus ?paid \<noteq> ''cancelled''"
    by (simp add: shop_defs)
  have before: "mainStock (products ?s) ''p1'' = Some 3" "addOnStock (products ?s) ''a1'' = Some 1"
    "ordered (orderItems ?paid) ''p1'' = 2" "ordered (orderItems ?paid) ''a1'' = 1"
    by (simp_all add: shop_defs stock_defs)
  note p = t [where s = ?s and oid = "''o1''" and ord = ?paid and u = mallory and q = "''p1''"
      and e = clock and v = alice, THEN mp, OF f]
  note a = t [where s = ?s and oid = "''o1''" and ord = ?paid and u = mallory and q = "''a1''",
      THEN mp, OF f]
  have c1: "fst (abandonOrder mallory ''o1'' ?s)
     = Reply 200 (MsgBody ''Order record permanently deleted and stock restored'')"
    using p [THEN conjunct1] by simp
  have c2: "orders (snd (abandonOrder mallory ''o1'' ?s)) = []"
    using p [THEN conjunct1] by (simp add: shop_defs)
  have c3: "findOrder (orders (snd (abandonOrder mallory ''o1'' ?s))) ''o1'' = None"
    using p [THEN conjunct2, THEN conjunct2, THEN conjunct2, THEN conjunct2, THEN conjunct2,
        THEN conjunct1, THEN mp, OF d] .
  have c4: "mainStock (products (snd (abandonOrder mallory ''o1'' ?s))) ''p1'' = Some 5"
    using p [THEN conjunct2, THEN conjunct2, THEN conjunct1] by (simp add: before)
  have c5: "addOnStock (products (snd (abandonOrder mallory ''o1'' ?s))) ''a1'' = Some 2"
    using a [THEN conjunct2, THEN conjunct2, THEN conjunct2, THEN conjunct1, THEN mp, OF a1]
    by (simp add: before)
  have twice: "products (snd (abandonOrder mallory ''o1'' (snd (cancelOrder clock alice ''o1'' ?s)))) =
      restoreStock (orderItems ?paid) (restoreStock (orderItems ?paid) (products ?s))"
    using p [THEN conjunct2, THEN conjunct2, THEN conjunct2, THEN conjunct2, THEN conjunct2,
        THEN conjunct2, THEN mp, OF g] .
  have c6: "mainStock (products (snd (abandonOrder mallory ''o1''
        (snd (cancelOrder clock alice ''o1'' ?s))))) ''p1'' = Some 7"
    by (simp only: twice mainStock_restoreStock before) simp
  show ?thesis using c1 c2 c3 c4 c5 c6 by simp
qed

section \<open>Bulk status update\<close>

lemma setFields_empty: "setFields emptyUpdate x = x"
  by (simp add: setFields_def emptyUpdate_def)

lemma updateData_cases:
  "updateData e st =
     (if st = ''delivered''
      then \<lparr>ud_isDelivered = Some True, ud_deliveredAt = Some (now e),
            ud_trackingStatus = Some ''delivered'', ud_isPaid = None, ud_paidAt = None\<rparr>
      else if st = ''paid''
      then \<lparr>ud_isDelivered = None, ud_deliveredAt = None, ud_trackingStatus = None,
            ud_isPaid = Some True, ud_paidAt = Some (now e)\<rparr>
      else if st = ''pending'' \<or> st = ''confirmed'' \<or> st = ''processing'' \<or> st = ''shipped''
              \<or> st = ''out_for_delivery''
      then \<lparr>ud_isDelivered = None, ud_deliveredAt = None, ud_trackingStatus = Some st,
            ud_isPaid = None, ud_paidAt = None\<rparr>
      else emptyUpdate)"
  by (simp add: updateData_def emptyUpdate_def)

lemma updateOrdersStatus_orders:
  "bb_orderIds b = Some ids \<Longrightarrow> ids \<noteq> [] \<Longrightarrow>
   (\<And>x. written e (updateData e (bb_status b)) x = f x) \<Longrightarrow>
   snd (updateOrdersStatus e b s) = s\<lparr>orders := map (\<lambda>x. if o_id x \<in> set ids then f x else x) (orders s)\<rparr>"
  by (simp add: updateOrdersStatus_def updateMany_def Let_def cong: if_cong)

lemma written_changes: "updatedAt x \<noteq> now e \<Longrightarrow> written e d x \<noteq> x"
proof
  assume n: "updatedAt x \<noteq> now e" and eq: "written e d x = x"
  have "updatedAt (written e d x) = now e" by (simp add: written_def)
  then show False using n eq by simp
qed

lemma updateOrdersStatus_count:
  assumes "bb_orderIds b = Some ids" and "ids \<noteq> []"
    and "\<forall>y\<in>set (orders s). updatedAt y \<noteq> now e"
  shows "fst (updateOrdersStatus e b s) =
           Reply 200 (BulkBody (length (filter (\<lambda>y. o_id y \<in> set ids) (orders s))))"
proof -
  have "filter (\<lambda>x. o_id x \<in> set ids \<and> written e (updateData e (bb_status b)) x \<noteq> x) (orders s)
      = filter (\<lambda>y. o_id y \<in> set ids) (orders s)"
    using assms(3) by (auto intro: filter_cong simp: written_changes)
  then show ?thesis using assms(1,2)
    by (simp add: updateOrdersStatus_def updateMany_def Let_def)
qed

lemma matched_all:
  assumes "distinct ids" and "distinct (map o_id os)" and "set ids \<subseteq> o_id ` set os"
  shows "length (filter (\<lambda>y. o_id y \<in> set ids) os) = length ids"
proof -
  have "length (filter (\<lambda>y. o_id y \<in> set ids) os)
      = length (filter (\<lambda>i. i \<in> set ids) (map o_id os))"
    by (simp add: filter_map comp_def)
  also have "\<dots> = card (set (filter (\<lambda>i. i \<in> set ids) (map o_id os)))"
  proof -
    have "distinct (filter (\<lambda>i. i \<in> set ids) (map o_id os))"
      using assms(2) by (rule distinct_filter)
    then show ?thesis by (rule distinct_card [symmetric])
  qed
  also have "set (filter (\<lambda>i. i \<in> set ids) (map o_id os)) = set ids"
    using assms(3) by auto
  also have "card (set ids) = length ids"
    using assms(1) by (simp add: distinct_card)
  finally show ?thesis .
qed

text \<open>
  C8, as the code and the store have it. A bulk status update over a non-empty list of order
  ids succeeds and writes to every order whose id is in the list, and to no other. With
  status delivered it sets isDelivered, stamps deliveredAt with the time of the request and
  sets the tracking status to delivered; with paid it sets isPaid and paidAt; with one of
  the five non-terminal tracking states it sets the tracking status as the only field of
  its own; for any other status value the handler's update is empty. In every case,
  the empty one too, the store stamps updatedAt on each matched order, and no other field
  changes. The reply counts the matched orders when none of them was last written at the
  very time of the request: as many as there are ids (two for two ids) when the ids are
  distinct and each names one stored order.
\<close>

theorem updateOrdersStatus_by_status:
  "bb_orderIds b = Some ids \<and> ids \<noteq> [] \<longrightarrow>
     (\<exists>n. fst (updateOrdersStatus e b s) = Reply 200 (BulkBody n))
   \<and> (bb_status b = ''delivered'' \<longrightarrow>
        snd (updateOrdersStatus e b s) =
          s\<lparr>orders := map (\<lambda>x. if o_id x \<in> set ids
                               then x\<lparr>isDelivered := True, deliveredAt := Some (now e),
                                      trackingStatus := ''delivered'', updatedAt := now e\<rparr>
                               else x) (orders s)\<rparr>)
   \<and> (bb_status b = ''paid'' \<longrightarrow>
        snd (updateOrdersStatus e b s) =
          s\<lparr>orders := map (\<lambda>x. if o_id x \<in> set ids
                               then x\<lparr>isPaid := True, paidAt := Some (now e), updatedAt := now e\<rparr>
                               else x) (orders s)\<rparr>)
   \<and> (bb_status b \<in> {''pending'', ''confirmed'', ''processing'', ''shipped'', ''out_for_delivery''} \<longrightarrow>
        snd (updateOrdersStatus e b s) =
          s\<lparr>orders := map (\<lambda>x. if o_id x \<in> set ids
                               then x\<lparr>trackingStatus := bb_status b, updatedAt := now e\<rparr>
                               else x) (orders s)\<rparr>)
   \<and> (bb_status b \<notin> {''delivered'', ''paid'', ''pending'', ''confirmed'', ''processing'', ''shipped'',
                       ''out_for_delivery''} \<longrightarrow>
        updateData e (bb_status b) = emptyUpdate
        \<and> snd (updateOrdersStatus e b s) =
            s\<lparr>orders := map (\<lambda>x. if o_id x \<in> set ids then x\<lparr>updatedAt := now e\<rparr> else x) (orders s)\<rparr>)
   \<and> ((\<forall>y\<in>set (orders s). updatedAt y \<noteq> now e) \<longrightarrow>
        fst (updateOrdersStatus e b s) =
          Reply 200 (BulkBody (length (filter (\<lambda>y. o_id y \<in> set ids) (orders s))))
        \<and> (distinct ids \<and> distinct (map o_id (orders s)) \<and> set ids \<subseteq> o_id ` set (orders s) \<longrightarrow>
            fst (updateOrdersStatus e b s) = Reply 200 (BulkBody (length ids))))"
proof (intro impI conjI)
  assume a: "bb_orderIds b = Some ids \<and> ids \<noteq> []"
  then have i: "bb_orderIds b = Some ids" and n: "ids \<noteq> []" by simp_all
  show "\<exists>n. fst (updateOrdersStatus e b s) = Reply 200 (BulkBody n)"
    using a by (simp add: updateOrdersStatus_def Let_def)
  {
    assume d: "bb_status b = ''delivered''"
    show "snd (updateOrdersStatus e b s) =
          s\<lparr>orders := map (\<lambda>x. if o_id x \<in> set ids
                               then x\<lparr>isDelivered := True, deliveredAt := Some (now e),
                                      trackingStatus := ''delivered'', updatedAt := now e\<rparr>
                               else x) (orders s)\<rparr>"
      by (rule updateOrdersStatus_orders [OF i n]) (simp add: d written_def updateData_cases setFields_def)
  }
  {
    assume d: "bb_status b = ''paid''"
    show "snd (updateOrdersStatus e b s) =
          s\<lparr>orders := map (\<lambda>x. if o_id x \<in> set ids
                               then x\<lparr>isPaid := True, paidAt := Some (now e), updatedAt := now e\<rparr>
                               else x) (orders s)\<rparr>"
      by (rule updateOrdersStatus_orders [OF i n]) (simp add: d written_def updateData_cases setFields_def)
  }
  {
    assume "bb_status b \<in> {''pending'', ''confirmed'', ''processing'', ''shipped'', ''out_for_delivery''}"
    then have "updateData e (bb_status b) = \<lparr>ud_isDelivered = None, ud_deliveredAt = None,
        ud_trackingStatus = Some (bb_status b), ud_isPaid = None, ud_paidAt = None\<rparr>"
      by (auto simp: updateData_cases)
    then have "\<And>x. written e (updateData e (bb_status b)) x = x\<lparr>trackingStatus := bb_status b, updatedAt := now e\<rparr>"
      by (simp add: written_def setFields_def)
    then show "snd (updateOrdersStatus e b s) =
          s\<lparr>orders := map (\<lambda>x. if o_id x \<in> set ids
                               then x\<lparr>trackingStatus := bb_status b, updatedAt := now e\<rparr>
                               else x) (orders s)\<rparr>"
      by (rule updateOrdersStatus_orders [OF i n])
  }
  {
    assume "bb_status b \<notin> {''delivered'', ''paid'', ''pending'', ''confirmed'', ''processing'', ''shipped'',
                       ''out_for_delivery''}"
    then show u: "updateData e (bb_status b) = emptyUpdate"
      by (simp add: updateData_cases)
    show "snd (updateOrdersStatus e b s) =
            s\<lparr>orders := map (\<lambda>x. if o_id x \<in> set ids then x\<lparr>updatedAt := now e\<rparr> else x) (orders s)\<rparr>"
      by (rule updateOrdersStatus_orders [OF i n]) (simp add: u written_def setFields_empty)
  }
  {
    assume f: "\<forall>y\<in>set (orders s). updatedAt y \<noteq> now e"
    show c: "fst (updateOrdersStatus e b s) =
          Reply 200 (BulkBody (length (filter (\<lambda>y. o_id y \<in> set ids) (orders s))))"
      by (rule updateOrdersStatus_count [OF i n f])
    assume "distinct ids \<and> distinct (map o_id (orders s)) \<and> set ids \<subseteq> o_id ` set (orders s)"
    then have "length (filter (\<lambda>y. o_id y \<in> set ids) (orders s)) = length ids"
      by (intro matched_all) simp_all
    then show "fst (updateOrdersStatus e b s) = Reply 200 (BulkBody (length ids))"
      by (simp only: c)
  }
qed

theorem updateOrdersStatus_by_status_witness:
  "fst (updateOrdersStatus clock (bulk [''o1'', ''o2''] ''delivered'') three) = Reply 200 (BulkBody 2)
   \<and> map trackingStatus (orders (snd (updateOrdersStatus clock (bulk [''o1'', ''o2''] ''delivered'') three)))
       = [''delivered'', ''delivered'', ''pending'']
   \<and> map isDelivered (orders (snd (updateOrdersStatus clock (bulk [''o1'', ''o2''] ''delivered'') three)))
       = [True, True, False]
   \<and> map deliveredAt (orders (snd (updateOrdersStatus clock (bulk [''o1'', ''o2''] ''delivered'') three)))
       = [Some 1000, Some 1000, None]
   \<and> map isPaid (orders (snd (updateOrdersStatus clock (bulk [''o1'', ''o2''] ''paid'') three)))
       = [True, True, True]
   \<and> map paidAt (orders (snd (updateOrdersStatus clock (bulk [''o1'', ''o2''] ''paid'') three)))
       = [Some 1000, Some 1000, Some 500]
   \<and> map trackingStatus (orders (snd (updateOrdersStatus clock (bulk [''o1'', ''o2''] ''shipped'') three)))
       = [''shipped'', ''shipped'', ''pending'']
   \<and> map isDelivered (orders (snd (updateOrdersStatus clock (bulk [''o1'', ''o2''] ''shipped'') three)))
       = [False, False, False]
   \<and> map trackingStatus (orders (snd (updateOrdersStatus clock (bulk [''o1'', ''o2''] ''refunded'') three)))
       = [''pending'', ''pending'', ''pending'']
   \<and> map updatedAt (orders (snd (updateOrdersStatus clock (bulk [''o1'', ''o2''] ''refunded'') three)))
       = [1000, 1000, 30]
   \<and> (\<exists>n. fst (updateOrdersStatus clock (bulk [''o1'', ''o2''] ''refunded'') three) = Reply 200 (BulkBody n))"
proof -
  note t = updateOrdersStatus_by_status
  let ?a = "stamped ''o1'' 10 (placed ''COD'')"
  let ?b = "stamped ''o2'' 20 (placed ''Online'')"
  let ?c = "stamped ''o3'' 30 (settled (placed ''Online''))"
  have ids: "\<And>st. bb_orderIds (bulk [''o1'', ''o2''] st) = Some [''o1'', ''o2''] \<and> [''o1'', ''o2''] \<noteq> []"
    by (simp add: bulk_def)
  have st: "\<And>st. bb_status (bulk [''o1'', ''o2''] st) = st" by (simp add: bulk_def)
  have os: "orders three = [?a, ?b, ?c]" by (simp add: three_def ledger_def)
  have idsOf: "o_id ?a = ''o1''" "o_id ?b = ''o2''" "o_id ?c = ''o3''"
    by (simp_all add: stamped_def)
  have fields: "trackingStatus ?a = ''pending''" "trackingStatus ?b = ''pending''"
    "trackingStatus ?c = ''pending''" "isDelivered ?a = False" "isDelivered ?b = False"
    "isDelivered ?c = False" "deliveredAt ?c = None" "isPaid ?c = True" "paidAt ?c = Some 500"
    "updatedAt ?a = 10" "updatedAt ?b = 20" "updatedAt ?c = 30" "now clock = 1000"
    by (simp_all add: stamped_def shop_defs)
  have before: "\<forall>y\<in>set (orders three). updatedAt y \<noteq> now clock"
    by (simp add: os fields)
  have all: "distinct [''o1'', ''o2''] \<and> distinct (map o_id (orders three))
      \<and> set [''o1'', ''o2''] \<subseteq> o_id ` set (orders three)"
    by (simp add: os idsOf)
  have five: "bb_status (bulk [''o1'', ''o2''] ''shipped'')
      \<in> {''pending'', ''confirmed'', ''processing'', ''shipped'', ''out_for_delivery''}"
    by (simp add: bulk_def)
  have other: "bb_status (bulk [''o1'', ''o2''] ''refunded'')
      \<notin> {''delivered'', ''paid'', ''pending'', ''confirmed'', ''processing'', ''shipped'', ''out_for_delivery''}"
    by (simp add: bulk_def)
  note d = t [where b = "bulk [''o1'', ''o2''] ''delivered''" and e = clock and s = three, THEN mp, OF ids]
  note p = t [where b = "bulk [''o1'', ''o2''] ''paid''" and e = clock and s = three, THEN mp, OF ids]
  note h = t [where b = "bulk [''o1'', ''o2''] ''shipped''" and e = clock and s = three, THEN mp, OF ids]
  note r = t [where b = "bulk [''o1'', ''o2''] ''refunded''" and e = clock and s = three, THEN mp, OF ids]
  have c1: "fst (updateOrdersStatus clock (bulk [''o1'', ''o2''] ''delivered'') three) = Reply 200 (BulkBody 2)"
    using d [THEN conjunct2, THEN conjunct2, THEN conjunct2, THEN conjunct2, THEN conjunct2,
        THEN mp, OF before, THEN conjunct2, THEN mp, OF all]
    by simp
  have after: "orders (snd (updateOrdersStatus clock (bulk [''o1'', ''o2''] ''delivered'') three)) =
      [?a\<lparr>isDelivered := True, deliveredAt := Some (now clock), trackingStatus := ''delivered'',
           updatedAt := now clock\<rparr>,
       ?b\<lparr>isDelivered := True, deliveredAt := Some (now clock), trackingStatus := ''delivered'',
           updatedAt := now clock\<rparr>, ?c]"
    by (simp add: d [THEN conjunct2, THEN conjunct1, THEN mp, OF st] os idsOf)
  have c2: "map trackingStatus (orders (snd (updateOrdersStatus clock (bulk [''o1'', ''o2''] ''delivered'') three)))
       = [''delivered'', ''delivered'', ''pending'']"
    by (simp add: after fields)
  have c3: "map isDelivered (orders (snd (updateOrdersStatus clock (bulk [''o1'', ''o2''] ''delivered'') three)))
       = [True, True, False]"
    by (simp add: after fields)
  have c4: "map deliveredAt (orders (snd (updateOrdersStatus clock (bulk [''o1'', ''o2''] ''delivered'') three)))
       = [Some 1000, Some 1000, None]"
    by (simp add: after fields)
  have after2: "orders (snd (updateOrdersStatus clock (bulk [''o1'', ''o2''] ''paid'') three)) =
      [?a\<lparr>isPaid := True, paidAt := Some (now clock), updatedAt := now clock\<rparr>,
       ?b\<lparr>isPaid := True, paidAt := Some (now clock), updatedAt := now clock\<rparr>, ?c]"
    by (simp add: p [THEN conjunct2, THEN conjunct2, THEN conjunct1, THEN mp, OF st] os idsOf)
  have c5: "map isPaid (orders (snd (updateOrdersStatus clock (bulk [''o1'', ''o2''] ''paid'') three)))
       = [True, True, True]"
    by (simp add: after2 fields)
  have c6: "map paidAt (orders (snd (updateOrdersStatus clock (bulk [''o1'', ''o2''] ''paid'') three)))
       = [Some 1000, Some 1000, Some 500]"
    by (simp add: after2 fields)
  have after3: "orders (snd (updateOrdersStatus clock (bulk [''o1'', ''o2''] ''shipped'') three)) =
      [?a\<lparr>trackingStatus := ''shipped'', updatedAt := now clock\<rparr>,
       ?b\<lparr>trackingStatus := ''shipped'', updatedAt := now clock\<rparr>, ?c]"
    by (simp add: h [THEN conjunct2, THEN conjunct2, THEN conjunct2, THEN conjunct1, THEN mp, OF five]
          os idsOf st)
  have c7: "map trackingStatus (orders (snd (updateOrdersStatus clock (bulk [''o1'', ''o2''] ''shipped'') three)))
       = [''shipped'', ''shipped'', ''pending'']"
    by (simp add: after3 fields)
  have c8: "map isDelivered (orders (snd (updateOrdersStatus clock (bulk [''o1'', ''o2''] ''shipped'') three)))
       = [False, False, False]"
    by (simp add: after3 fields)
  have after4: "orders (snd (updateOrdersStatus clock (bulk [''o1'', ''o2''] ''refunded'') three)) =
      [?a\<lparr>updatedAt := now clock\<rparr>, ?b\<lparr>updatedAt := now clock\<rparr>, ?c]"
    by (simp add: r [THEN conjunct2, THEN conjunct2, THEN conjunct2, THEN conjunct2, THEN conjunct1,
          THEN mp, OF other, THEN conjunct2] os idsOf)
  have c9: "map trackingStatus (orders (snd (updateOrdersStatus clock (bulk [''o1'', ''o2''] ''refunded'') three)))
       = [''pending'', ''pending'', ''pending'']"
    by (simp add: after4 fields)
  have c10: "map updatedAt (orders (snd (updateOrdersStatus clock (bulk [''o1'', ''o2''] ''refunded'') three)))
       = [1000, 1000, 30]"
    by (simp add: after4 fields)
  note c11 = r [THEN conjunct1]
  show ?thesis using c1 c2 c3 c4 c5 c6 c7 c8 c9 c10 c11 by simp
qed

text \<open>
  C8 as stated calls the update for an unrecognized status a no-op. On the store of three
  orders the status refunded over two ids is answered with a modified count of 2, and the
  two orders carry a new updatedAt.
\<close>

theorem updateOrdersStatus_unknown_status_stamps_orders:
  "fst (updateOrdersStatus clock (bulk [''o1'', ''o2''] ''refunded'') three) = Reply 200 (BulkBody 2)
   \<and> map updatedAt (orders three) = [10, 20, 30]
   \<and> map updatedAt (orders (snd (updateOrdersStatus clock (bulk [''o1'', ''o2''] ''refunded'') three)))
       = [1000, 1000, 30]"
  by (simp add: updateOrdersStatus_def updateMany_def written_def updateData_def setFields_def
        emptyUpdate_def Let_def ledger_defs shop_defs)

section \<open>Listing one's own orders\<close>

text \<open>
  C10. Listing my orders leaves the store alone and returns, newest first by creation time,
  exactly the stored orders of the requesting user whose payment method is COD or which are
  paid. An order that is unpaid and whose payment method is not COD is never in the result.
\<close>

theorem getMyOrders_own_visible_newest_first:
  "\<exists>res. getMyOrders u s = (Reply 200 (OrdersBody res), s)
     \<and> set res = {x \<in> set (orders s). o_user x = auth_id u \<and> (paymentMethod x = Some ''COD'' \<or> isPaid x)}
     \<and> length res = length (filter (myOrdersQuery u) (orders s))
     \<and> sorted_wrt (\<lambda>x y. createdAt y \<le> createdAt x) res
     \<and> (\<forall>x. \<not> isPaid x \<and> paymentMethod x \<noteq> Some ''COD'' \<longrightarrow> x \<notin> set res)"
proof -
  let ?res = "sort_key (\<lambda>x. - createdAt x) (filter (myOrdersQuery u) (orders s))"
  have "sorted (map (\<lambda>x. - createdAt x) ?res)" by (rule sorted_sort_key)
  then have "sorted_wrt (\<lambda>x y. createdAt y \<le> createdAt x) ?res"
    by (simp add: sorted_map)
  moreover have "set ?res =
      {x \<in> set (orders s). o_user x = auth_id u \<and> (paymentMethod x = Some ''COD'' \<or> isPaid x)}"
    by (auto simp: myOrdersQuery_def)
  moreover have "\<forall>x. \<not> isPaid x \<and> paymentMethod x \<noteq> Some ''COD'' \<longrightarrow> x \<notin> set ?res"
    by (auto simp: myOrdersQuery_def)
  moreover have "getMyOrders u s = (Reply 200 (OrdersBody ?res), s)"
    by (simp add: getMyOrders_def)
  ultimately show ?thesis by (intro exI [of _ ?res]) simp
qed

theorem getMyOrders_own_visible_newest_first_witness:
  "fst (getMyOrders alice three)
     = Reply 200 (OrdersBody [stamped ''o3'' 30 (settled (placed ''Online'')), stamped ''o1'' 10 (placed ''COD'')])
   \<and> stamped ''o2'' 20 (placed ''Online'')
       \<notin> set [stamped ''o3'' 30 (settled (placed ''Online'')), stamped ''o1'' 10 (placed ''COD'')]"
proof -
  from getMyOrders_own_visible_newest_first [of alice three]
  obtain res where r: "getMyOrders alice three = (Reply 200 (OrdersBody res), three)"
    and n: "\<forall>x. \<not> isPaid x \<and> paymentMethod x \<noteq> Some ''COD'' \<longrightarrow> x \<notin> set res"
    by blast
  have "getMyOrders alice three
      = (Reply 200 (OrdersBody [stamped ''o3'' 30 (settled (placed ''Online'')), stamped ''o1'' 10 (placed ''COD'')]), three)"
    by (simp add: getMyOrders_def myOrdersQuery_def ledger_defs shop_defs)
  with r have res: "res = [stamped ''o3'' 30 (settled (placed ''Online'')), stamped ''o1'' 10 (placed ''COD'')]"
    by simp
  have "\<not> isPaid (stamped ''o2'' 20 (placed ''Online''))
      \<and> paymentMethod (stamped ''o2'' 20 (placed ''Online'')) \<noteq> Some ''COD''"
    by (simp add: ledger_defs shop_defs)
  with n have "stamped ''o2'' 20 (placed ''Online'') \<notin> set res" by blast
  then show ?thesis using r res by simp
qed

section \<open>Webhook deliveries\<close>

lemma captured_paid:
  "wb_entity wb = Some ent \<Longrightarrow> pe_notes ent = Some (Some oid) \<Longrightarrow>
   findOrder (orders s) oid = Some ord \<Longrightarrow> isPaid ord \<Longrightarrow> captured e wb s = (Reply 200 StatusOk, s)"
  by (simp add: captured_def)

lemma captured_twice: "snd (captured e' wb (snd (captured e wb s))) = snd (captured e wb s)"
proof (cases "wb_entity wb")
  case None
  then show ?thesis by (simp add: captured_def)
next
  case (Some ent)
  note ent = this
  show ?thesis
  proof (cases "pe_notes ent")
    case None
    then show ?thesis using ent by (simp add: captured_def)
  next
    case (Some orderId)
    note nts = this
    show ?thesis
    proof (cases "case orderId of None \<Rightarrow> None | Some i \<Rightarrow> findOrder (orders s) i")
      case None
      then show ?thesis using ent nts by (simp add: captured_def)
    next
      case (Some ord)
      then obtain i where i: "orderId = Some i" and f: "findOrder (orders s) i = Some ord"
        by (cases orderId) auto
      show ?thesis
      proof (cases "isPaid ord")
        case True
        then show ?thesis using ent nts i f by (simp add: captured_def)
      next
        case False
        let ?paid = "paidByWebhook e ent ord"
        let ?s = "s\<lparr>orders := saveOrder ?paid (orders s)\<rparr>"
        have first: "captured e wb s = (Reply 200 StatusOk, ?s)"
          using ent nts i f False by (simp add: captured_def)
        have "o_id ?paid = i" using findOrder_id [OF f] by (simp add: paidByWebhook_def)
        then have "findOrder (orders ?s) i = Some ?paid"
          using findOrder_saveOrder [OF f] by simp
        moreover have "isPaid ?paid" by (simp add: paidByWebhook_def)
        ultimately have "captured e' wb ?s = (Reply 200 StatusOk, ?s)"
          using ent nts i by (intro captured_paid) simp_all
        then show ?thesis by (simp add: first)
      qed
    qed
  qed
qed

text \<open>
  C3. The webhook handler rejects without processing when the signature header or the webhook
  secret is missing (or empty), and when the supplied signature differs from the keyed hash
  of the serialised request body under the webhook secret; in each case the reply is 400 and
  the store is unchanged, so no order is mutated. A \<open>payment.captured\<close> delivery for an
  order that is already paid leaves the store unchanged, and delivering any webhook a second
  time changes nothing after the first delivery.
\<close>

theorem handleWebhook_rejects_and_redelivery_noop:
  "(\<not> truthy (x_razorpay_signature req) \<or> \<not> truthy (RAZORPAY_WEBHOOK_SECRET p) \<longrightarrow>
      handleWebhook e p req s =
        (Reply 400 (MsgBody ''Signature and secret are required for webhook''), s))
   \<and> (x_razorpay_signature req = Some sg \<and> RAZORPAY_WEBHOOK_SECRET p = Some secret
        \<and> sg \<noteq> [] \<and> secret \<noteq> []
        \<and> sg \<noteq> hmac_sha256 p secret (stringify p (wh_body req)) \<longrightarrow>
      handleWebhook e p req s = (Reply 400 (MsgBody ''Invalid webhook signature''), s))
   \<and> (wb_event (wh_body req) = ''payment.captured'' \<and> wb_entity (wh_body req) = Some ent
        \<and> pe_notes ent = Some (Some oid) \<and> findOrder (orders s) oid = Some ord \<and> isPaid ord \<longrightarrow>
      snd (handleWebhook e p req s) = s)
   \<and> snd (handleWebhook e' p req (snd (handleWebhook e p req s))) = snd (handleWebhook e p req s)"
proof (intro conjI impI)
  assume "\<not> truthy (x_razorpay_signature req) \<or> \<not> truthy (RAZORPAY_WEBHOOK_SECRET p)"
  then show "handleWebhook e p req s =
        (Reply 400 (MsgBody ''Signature and secret are required for webhook''), s)"
    by (auto simp: handleWebhook_def truthy_def split: option.splits)
next
  assume "x_razorpay_signature req = Some sg \<and> RAZORPAY_WEBHOOK_SECRET p = Some secret
        \<and> sg \<noteq> [] \<and> secret \<noteq> []
        \<and> sg \<noteq> hmac_sha256 p secret (stringify p (wh_body req))"
  then show "handleWebhook e p req s = (Reply 400 (MsgBody ''Invalid webhook signature''), s)"
    by (simp add: handleWebhook_def)
next
  assume a: "wb_event (wh_body req) = ''payment.captured'' \<and> wb_entity (wh_body req) = Some ent
        \<and> pe_notes ent = Some (Some oid) \<and> findOrder (orders s) oid = Some ord \<and> isPaid ord"
  then have "captured e (wh_body req) s = (Reply 200 StatusOk, s)"
    by (intro captured_paid [of _ ent oid _ ord]) simp_all
  then show "snd (handleWebhook e p req s) = s"
    by (simp add: handleWebhook_def split: option.splits)
next
  show "snd (handleWebhook e' p req (snd (handleWebhook e p req s))) = snd (handleWebhook e p req s)"
    by (simp add: handleWebhook_def captured_twice split: option.splits)
qed

theorem handleWebhook_rejects_and_redelivery_noop_witness:
  "handleWebhook clock gateway ((delivery ''w:payment.captured'')\<lparr>x_razorpay_signature := None\<rparr>)
       (trading (placed ''Online''))
     = (Reply 400 (MsgBody ''Signature and secret are required for webhook''), trading (placed ''Online''))
   \<and> handleWebhook clock gateway (delivery ''forged'') (trading (placed ''Online''))
     = (Reply 400 (MsgBody ''Invalid webhook signature''), trading (placed ''Online''))
   \<and> snd (handleWebhook clock gateway (delivery ''w:payment.captured'') (trading (settled (placed ''Online''))))
     = trading (settled (placed ''Online''))
   \<and> map isPaid (orders (snd (handleWebhook clock gateway (delivery ''w:payment.captured'')
        (trading (placed ''Online''))))) = [True]
   \<and> snd (handleWebhook clock gateway (delivery ''w:payment.captured'')
        (snd (handleWebhook clock gateway (delivery ''w:payment.captured'') (trading (placed ''Online'')))))
     = snd (handleWebhook clock gateway (delivery ''w:payment.captured'') (trading (placed ''Online'')))"
proof -
  note t = handleWebhook_rejects_and_redelivery_noop
  let ?ok = "delivery ''w:payment.captured''"
  let ?unsigned = "?ok\<lparr>x_razorpay_signature := None\<rparr>"
  let ?s = "trading (placed ''Online'')"
  let ?paid = "settled (placed ''Online'')"
  have m: "\<not> truthy (x_razorpay_signature ?unsigned) \<or> \<not> truthy (RAZORPAY_WEBHOOK_SECRET gateway)"
    by (simp add: truthy_def)
  have w: "x_razorpay_signature (delivery ''forged'') = Some ''forged''
      \<and> RAZORPAY_WEBHOOK_SECRET gateway = Some ''w'' \<and> ''forged'' \<noteq> [] \<and> ''w'' \<noteq> []
      \<and> ''forged'' \<noteq> hmac_sha256 gateway ''w'' (stringify gateway (wh_body (delivery ''forged'')))"
    by (simp add: gateway_defs)
  have d: "wb_event (wh_body ?ok) = ''payment.captured''
      \<and> wb_entity (wh_body ?ok) = Some \<lparr>pe_id = ''pay_1'', pe_order_id = Some ''order_1'',
                                   pe_notes = Some (Some ''o1'')\<rparr>
      \<and> pe_notes \<lparr>pe_id = ''pay_1'', pe_order_id = Some ''order_1'', pe_notes = Some (Some ''o1'')\<rparr>
          = Some (Some ''o1'')
      \<and> findOrder (orders (trading ?paid)) ''o1'' = Some ?paid \<and> isPaid ?paid"
    by (simp add: gateway_defs findOrder_def shop_defs)
  have c1: "handleWebhook clock gateway ?unsigned ?s
     = (Reply 400 (MsgBody ''Signature and secret are required for webhook''), ?s)"
    using t [where req = ?unsigned and p = gateway and e = clock and s = ?s,
        THEN conjunct1, THEN mp, OF m] .
  have c2: "handleWebhook clock gateway (delivery ''forged'') ?s
     = (Reply 400 (MsgBody ''Invalid webhook signature''), ?s)"
    using t [where req = "delivery ''forged''" and p = gateway and e = clock and s = ?s,
        THEN conjunct2, THEN conjunct1, THEN mp, OF w] .
  have c3: "snd (handleWebhook clock gateway ?ok (trading ?paid)) = trading ?paid"
    using t [where req = ?ok and p = gateway and e = clock and s = "trading ?paid",
        THEN conjunct2, THEN conjunct2, THEN conjunct1, THEN mp, OF d] .
  have c4: "map isPaid (orders (snd (handleWebhook clock gateway ?ok ?s))) = [True]"
    by (simp add: handleWebhook_def captured_def gateway_defs findOrder_def paidByWebhook_def shop_defs)
  have c5: "snd (handleWebhook clock gateway ?ok (snd (handleWebhook clock gateway ?ok ?s)))
     = snd (handleWebhook clock gateway ?ok ?s)"
    using t [where req = ?ok and p = gateway and e = clock and e' = clock and s = ?s,
        THEN conjunct2, THEN conjunct2, THEN conjunct2] .
  show ?thesis using c1 c2 c3 c4 c5 by simp
qed

section \<open>New-order notifications wait for an online payment\<close>

lemma createAll_accepted:
  "(\<forall>n\<in>set ns. accepts e n) \<Longrightarrow> createAll e ns store = (store @ ns, True)"
  by (induction ns arbitrary: store) auto

lemma isOnlinePayment_iff:
  "isOnlinePayment pm =
     (\<exists>m. pm = Some m \<and> (toLowerCase m = ''online'' \<or> toLowerCase m = ''razorpay''))"
  by (cases pm) (auto simp: isOnlinePayment_def toLowerCase_def)

lemma created_titles:
  "map n_title (newOrderNotifications (trading (placed pm)) (placed pm) alice)
     = [''Order Placed!'', ''New Order Received!'', ''Low Stock Alert!'']"
  by (simp add: notify_defs shop_defs stock_defs)


lemma created_users:
  "map n_user (newOrderNotifications (trading (placed pm)) (placed pm) alice) = [''u1'', ''u0'', ''u0'']"
  by (simp add: notify_defs shop_defs stock_defs)

lemma clock_accepts: "\<forall>n\<in>set ns. accepts clock n"
  by (simp add: clock_def)

lemma newOrderNotifications_same:
  assumes "o_id a = o_id b" and "orderItems a = orderItems b"
  shows "newOrderNotifications s a u = newOrderNotifications s b u"
proof -
  have "newOrderNote a = newOrderNote b"
    by (rule ext) (simp add: newOrderNote_def assms)
  then show ?thesis
    by (simp add: newOrderNotifications_def orderPlacedNote_def assms)
qed

text \<open>
  C5. The dispatch of the new-order notifications is deferred exactly when the payment method
  is, case-insensitively, online or razorpay. For such an order creation leaves the
  notifications as they were; for any other order (cash on delivery among them) creation
  runs the dispatch at once, which on a store that accepts them appends the order-placed
  note, one note per willing admin and the low-stock notes. A successful client-confirmed
  verification runs the same dispatch for the order and then calls the payment helper with
  kind success and the order helper with kind order_created, both for the owning user.
\<close>

theorem new_order_notifications_deferred_for_online:
  "isOnlinePayment pm =
     (\<exists>m. pm = Some m \<and> (toLowerCase m = ''online'' \<or> toLowerCase m = ''razorpay''))
   \<and> (cb_orderItems b = Some items \<and> items \<noteq> [] \<and> checkStock (products s) items = None
        \<and> created = newOrder e u items (cb_paymentMethod b)
        \<and> s2 = s\<lparr>orders := orders s @ [created], products := decrementStock items (products s)\<rparr>
      \<longrightarrow> (isOnlinePayment (cb_paymentMethod b) \<longrightarrow> addOrderItems e u b s = (Reply 201 (OrderBody created), s2))
        \<and> (\<not> isOnlinePayment (cb_paymentMethod b) \<longrightarrow>
              addOrderItems e u b s =
                (Reply 201 (OrderBody created), sendNewOrderNotifications e created u s2)
            \<and> ((\<forall>n\<in>set (newOrderNotifications s2 created u). accepts e n) \<longrightarrow>
                 notifications (snd (addOrderItems e u b s)) =
                   notifications s @ newOrderNotifications s2 created u)))
   \<and> (findOrder (orders t) (vb_orderId vb) = Some ord \<and> fst (checkPayment p vb)
        \<and> paid = paidByClient e (snd (checkPayment p vb)) vb ord
        \<and> t2 = sendNewOrderNotifications e paid u (t\<lparr>orders := saveOrder paid (orders t)\<rparr>)
        \<and> createPaymentNotification p (o_user ord) paid ''success'' (notifications t2) = Some ns1
        \<and> createOrderNotification p (o_user ord) paid ''order_created'' ns1 = Some ns2
      \<longrightarrow> verifyPayment e p u vb t = (Reply 200 (VerifiedBody paid), t2\<lparr>notifications := ns2\<rparr>)
        \<and> ((\<forall>n\<in>set (newOrderNotifications t paid u). accepts e n) \<longrightarrow>
              notifications t2 = notifications t @ newOrderNotifications t paid u))"
proof (intro conjI impI)
  show "isOnlinePayment pm =
     (\<exists>m. pm = Some m \<and> (toLowerCase m = ''online'' \<or> toLowerCase m = ''razorpay''))"
    by (rule isOnlinePayment_iff)
next
  assume a: "cb_orderItems b = Some items \<and> items \<noteq> [] \<and> checkStock (products s) items = None
        \<and> created = newOrder e u items (cb_paymentMethod b)
        \<and> s2 = s\<lparr>orders := orders s @ [created], products := decrementStock items (products s)\<rparr>"
  {
    assume "isOnlinePayment (cb_paymentMethod b)"
    then show "addOrderItems e u b s = (Reply 201 (OrderBody created), s2)"
      using a by (simp add: addOrderItems_def Let_def)
  }
  {
    assume n: "\<not> isOnlinePayment (cb_paymentMethod b)"
    then show r: "addOrderItems e u b s =
        (Reply 201 (OrderBody created), sendNewOrderNotifications e created u s2)"
      using a by (simp add: addOrderItems_def Let_def)
    assume "\<forall>n\<in>set (newOrderNotifications s2 created u). accepts e n"
    then have "createAll e (newOrderNotifications s2 created u) (notifications s2)
        = (notifications s2 @ newOrderNotifications s2 created u, True)"
      by (rule createAll_accepted)
    moreover have "notifications s2 = notifications s" using a by simp
    ultimately show "notifications (snd (addOrderItems e u b s)) =
        notifications s @ newOrderNotifications s2 created u"
      by (simp add: r sendNewOrderNotifications_def)
  }
next
  assume a: "findOrder (orders t) (vb_orderId vb) = Some ord \<and> fst (checkPayment p vb)
        \<and> paid = paidByClient e (snd (checkPayment p vb)) vb ord
        \<and> t2 = sendNewOrderNotifications e paid u (t\<lparr>orders := saveOrder paid (orders t)\<rparr>)
        \<and> createPaymentNotification p (o_user ord) paid ''success'' (notifications t2) = Some ns1
        \<and> createOrderNotification p (o_user ord) paid ''order_created'' ns1 = Some ns2"
  then have f: "findOrder (orders t) (vb_orderId vb) = Some ord" and v: "fst (checkPayment p vb)"
    and pd: "paid = paidByClient e (snd (checkPayment p vb)) vb ord"
    and td: "t2 = sendNewOrderNotifications e paid u (t\<lparr>orders := saveOrder paid (orders t)\<rparr>)"
    and n1: "createPaymentNotification p (o_user ord) paid ''success'' (notifications t2) = Some ns1"
    and n2: "createOrderNotification p (o_user ord) paid ''order_created'' ns1 = Some ns2"
    by blast+
  have u: "o_user paid = o_user ord" using pd by (simp add: paidByClient_def)
  show "verifyPayment e p u vb t = (Reply 200 (VerifiedBody paid), t2\<lparr>notifications := ns2\<rparr>)"
    by (simp add: verifyPayment_def f v Let_def pd [symmetric] td [symmetric] u n1 n2)
  assume "\<forall>n\<in>set (newOrderNotifications t paid u). accepts e n"
  moreover have "lowStockNotes (t\<lparr>orders := saveOrder paid (orders t)\<rparr>) = lowStockNotes t"
    by (rule ext) (simp add: lowStockNotes_def admins_def split: option.splits)
  then have "newOrderNotifications (t\<lparr>orders := saveOrder paid (orders t)\<rparr>) paid u
      = newOrderNotifications t paid u"
    by (simp add: newOrderNotifications_def admins_def)
  ultimately have "createAll e (newOrderNotifications (t\<lparr>orders := saveOrder paid (orders t)\<rparr>) paid u)
      (notifications t) = (notifications t @ newOrderNotifications t paid u, True)"
    by (simp add: createAll_accepted)
  then show "notifications t2 = notifications t @ newOrderNotifications t paid u"
    using td by (simp add: sendNewOrderNotifications_def)
qed

theorem new_order_notifications_deferred_for_online_witness:
  "isOnlinePayment (Some ''RazorPay'')
   \<and> map n_title (notifications (snd (addOrderItems clock alice
         (basket [line ''p1'' 2, line ''a1'' 1] ''COD'') shop)))
       = [''Order Placed!'', ''New Order Received!'', ''Low Stock Alert!'']
   \<and> addOrderItems clock alice (basket [line ''p1'' 2, line ''a1'' 1] ''RazorPay'') shop
       = (Reply 201 (OrderBody (placed ''RazorPay'')), trading (placed ''RazorPay''))
   \<and> notifications (trading (placed ''RazorPay'')) = []
   \<and> map n_title (notifications (snd (verifyPayment clock gateway alice (receipt ''k:order_1|pay_1'')
         (trading (placed ''RazorPay'')))))
       = [''Order Placed!'', ''New Order Received!'', ''Low Stock Alert!'', ''success'', ''order_created'']
   \<and> map n_user (notifications (snd (verifyPayment clock gateway alice (receipt ''k:order_1|pay_1'')
         (trading (placed ''RazorPay'')))))
       = [''u1'', ''u0'', ''u0'', ''u1'', ''u1'']"
proof -
  note t = new_order_notifications_deferred_for_online
  let ?items = "[line ''p1'' 2, line ''a1'' 1]"
  have online: "\<exists>m. Some ''RazorPay'' = Some m \<and> (toLowerCase m = ''online'' \<or> toLowerCase m = ''razorpay'')"
    by (simp add: toLowerCase_def lowerChar_def)
  have c1: "isOnlinePayment (Some ''RazorPay'')"
    using t [where pm = "Some ''RazorPay''", THEN conjunct1] online by (simp only:)
  have cod: "\<not> isOnlinePayment (cb_paymentMethod (basket ?items ''COD''))"
    by (simp add: basket_def isOnlinePayment_def toLowerCase_def lowerChar_def)
  have rzp: "isOnlinePayment (cb_paymentMethod (basket ?items ''RazorPay''))"
    using c1 by (simp add: basket_def)
  have pre: "\<And>pm. cb_orderItems (basket ?items pm) = Some ?items \<and> ?items \<noteq> []
        \<and> checkStock (products shop) ?items = None
        \<and> placed pm = newOrder clock alice ?items (cb_paymentMethod (basket ?items pm))
        \<and> trading (placed pm) =
            shop\<lparr>orders := orders shop @ [placed pm], products := decrementStock ?items (products shop)\<rparr>"
    by (simp add: shop_defs stock_defs)
  note a = t [where b = "basket ?items ''COD''" and items = ?items and s = shop and e = clock and u = alice
      and created = "placed ''COD''" and ?s2.0 = "trading (placed ''COD'')",
      THEN conjunct2, THEN conjunct1, THEN mp, OF pre, THEN conjunct2, THEN mp, OF cod,
      THEN conjunct2, THEN mp, OF clock_accepts]
  have c2: "map n_title (notifications (snd (addOrderItems clock alice (basket ?items ''COD'') shop)))
       = [''Order Placed!'', ''New Order Received!'', ''Low Stock Alert!'']"
    by (simp add: a created_titles) (simp add: shop_def)
  have c3: "addOrderItems clock alice (basket ?items ''RazorPay'') shop
       = (Reply 201 (OrderBody (placed ''RazorPay'')), trading (placed ''RazorPay''))"
    using t [where b = "basket ?items ''RazorPay''" and items = ?items and s = shop and e = clock and u = alice
      and created = "placed ''RazorPay''" and ?s2.0 = "trading (placed ''RazorPay'')",
      THEN conjunct2, THEN conjunct1, THEN mp, OF pre, THEN conjunct1, THEN mp, OF rzp] .
  have c4: "notifications (trading (placed ''RazorPay'')) = []"
    by (simp add: trading_def)
  let ?t = "trading (placed ''RazorPay'')"
  let ?vb = "receipt ''k:order_1|pay_1''"
  let ?paid = "paidByClient clock (snd (checkPayment gateway ?vb)) ?vb (placed ''RazorPay'')"
  let ?t2 = "sendNewOrderNotifications clock ?paid alice (?t\<lparr>orders := saveOrder ?paid (orders ?t)\<rparr>)"
  let ?first = "the (serviceNote ''u1'' ?paid ''success'' (notifications ?t2))"
  let ?second = "the (serviceNote ''u1'' ?paid ''order_created'' ?first)"
  have v: "findOrder (orders ?t) (vb_orderId ?vb) = Some (placed ''RazorPay'') \<and> fst (checkPayment gateway ?vb)
        \<and> ?paid = ?paid \<and> ?t2 = ?t2
        \<and> createPaymentNotification gateway (o_user (placed ''RazorPay'')) ?paid ''success'' (notifications ?t2) = Some ?first
        \<and> createOrderNotification gateway (o_user (placed ''RazorPay'')) ?paid ''order_created'' ?first = Some ?second"
    by (simp add: findOrder_def checkPayment_def truthy_def receipt_def gateway_defs shop_defs)
  note b = t [where t = ?t and vb = ?vb and ord = "placed ''RazorPay''" and p = gateway and e = clock
      and u = alice and paid = ?paid and ?t2.0 = ?t2 and ?ns1.0 = ?first and ?ns2.0 = ?second,
      THEN conjunct2, THEN conjunct2, THEN mp, OF v]
  have same: "newOrderNotifications ?t ?paid alice = newOrderNotifications ?t (placed ''RazorPay'') alice"
    by (rule newOrderNotifications_same) (simp_all add: paidByClient_def)
  have sent: "notifications ?t2 = newOrderNotifications ?t (placed ''RazorPay'') alice"
    using b [THEN conjunct2, THEN mp, OF clock_accepts] by (simp add: same c4)
  have final: "notifications (snd (verifyPayment clock gateway alice ?vb ?t)) = ?second"
    by (simp add: b [THEN conjunct1])
  have c5: "map n_title (notifications (snd (verifyPayment clock gateway alice ?vb ?t)))
       = [''Order Placed!'', ''New Order Received!'', ''Low Stock Alert!'', ''success'', ''order_created'']"
    by (simp only: final) (simp add: serviceNote_def sent created_titles)
  have c6: "map n_user (notifications (snd (verifyPayment clock gateway alice ?vb ?t)))
       = [''u1'', ''u0'', ''u0'', ''u1'', ''u1'']"
    by (simp only: final) (simp add: serviceNote_def sent created_users)
  show ?thesis using c1 c2 c3 c4 c5 c6 by simp
qed

section \<open>Return requests\<close>




section \<open>Confirming a payment twice\<close>

text \<open>
  C2 at a concrete input. The client confirms the payment of an online order with a valid
  signature: the order is paid, its history has one entry and five notifications exist. The
  same confirmation sent again for the now paid order is processed again: the history gets
  the same entry a second time and the five notifications are created once more.
\<close>

theorem verifyPayment_again_on_paid_order:
  "map isPaid (orders once) = [True]
   \<and> map (map te_message \<circ> trackingHistory) (orders once) = [[''Order placed and payment received'']]
   \<and> length (notifications once) = 5
   \<and> map (map te_message \<circ> trackingHistory)
        (orders (snd (verifyPayment clock gateway alice (receipt ''k:order_1|pay_1'') once)))
     = [[''Order placed and payment received'', ''Order placed and payment received'']]
   \<and> map n_title (drop 5 (notifications (snd (verifyPayment clock gateway alice (receipt ''k:order_1|pay_1'') once))))
     = [''Order Placed!'', ''New Order Received!'', ''Low Stock Alert!'', ''success'', ''order_created'']"
  by (simp add: once_def verifyPayment_def checkPayment_def truthy_def paidByClient_def findOrder_def
        Let_def receipt_def gateway_defs notify_defs createAll.simps shop_defs stock_defs)

section \<open>Refused notifications\<close>

text \<open>
  C6 at a concrete input, on a store that refuses every notification. Order creation still
  replies 201. Cancellation and the return request by the owner save the order (cancelled
  with its stock restored, return status Requested) and then leave the handler with the
  exception of \<open>Notification.create\<close> instead of a reply.
\<close>

theorem notification_failure_reaches_the_caller:
  "fst (addOrderItems refusing alice (basket [line ''p1'' 2, line ''a1'' 1] ''COD'') shop)
     = Reply 201 (OrderBody (placed ''COD''))
   \<and> fst (cancelOrder refusing alice ''o1'' (trading (placed ''COD''))) = Raised CreateFailed
   \<and> map trackingStatus (orders (snd (cancelOrder refusing alice ''o1'' (trading (placed ''COD'')))))
     = [''cancelled'']
   \<and> mainStock (products (snd (cancelOrder refusing alice ''o1'' (trading (placed ''COD''))))) ''p1'' = Some 5
   \<and> fst (requestReturn refusing alice ''o1'' (Some ''size'') (trading (handedOver 0 (placed ''COD''))))
     = Raised CreateFailed
   \<and> map returnStatus (orders (snd (requestReturn refusing alice ''o1'' (Some ''size'')
        (trading (handedOver 0 (placed ''COD''))))))
     = [''Requested'']"
  by (simp add: addOrderItems_def cancelOrder_def requestReturn_def cancelled_def requested_def
        findOrder_def diffDays_def Let_def cancelNotifications_def notify_defs shop_defs stock_defs)

end
